theory Spec2Isabelle
  imports Main "HOL-Library.Sublist"
begin

section \<open>The data frame\<close>

text \<open>
  The pipeline of \<^verbatim>\<open>etlpipeline.py\<close> passes a pandas data frame from \<^verbatim>\<open>extract\<close>
  through \<^verbatim>\<open>transform\<close> to \<^verbatim>\<open>load\<close>. A cell is loosely typed; \<open>Null\<close> stands for
  every value pandas counts as missing (\<^verbatim>\<open>NaN\<close>, \<^verbatim>\<open>None\<close>, \<^verbatim>\<open>NaT\<close>). A column label
  is a string, or something else (an integer read from a JSON key or a spreadsheet
  header, a tuple of a multi-index): only a string has the method \<^verbatim>\<open>lower\<close>.
  A Python string is kept as the bytes of its UTF-8 form.
\<close>

datatype cell = Null | Num int | Text string | Flag bool

datatype label = Str string | NonStr int

text \<open>
  The frame is kept row by row: the ordered column labels (pandas allows the same label
  twice) and the rows in index order, each row one cell per column. The row index labels
  of pandas are left out: no statement of \<^verbatim>\<open>transform\<close> reads them (a scalar and a
  \<^verbatim>\<open>range\<close> are assigned by position).
\<close>

record dataframe =
  columns :: "label list"
  rows :: "cell list list"

definition well_formed :: "dataframe \<Rightarrow> bool" where
  "well_formed d = list_all (\<lambda>r. length r = length (columns d)) (rows d)"

text \<open>\<^verbatim>\<open>len(data)\<close>: the number of rows.\<close>

definition len :: "dataframe \<Rightarrow> nat" where
  "len d = length (rows d)"

text \<open>
  The exceptions the code can meet. \<open>UnsupportedFormat\<close> is the \<^verbatim>\<open>ValueError\<close> that
  \<^verbatim>\<open>extract\<close> (line 51) and \<^verbatim>\<open>load\<close> (line 120) raise themselves, with its message;
  \<open>AttributeError\<close> is raised by \<^verbatim>\<open>col.lower()\<close> on a label that is no string; the
  four after it come from the operating system; \<open>LibraryError\<close> is whatever a pandas
  reader or writer raises, with its message.
\<close>

datatype error =
    UnsupportedFormat string
  | AttributeError
  | FileNotFoundError
  | FileExistsError
  | NotADirectoryError
  | IsADirectoryError
  | LibraryError string

section \<open>Strings\<close>

text \<open>
  \<^verbatim>\<open>str.lower\<close> follows the case tables of Unicode, which belong to the Python runtime
  and not to the repository: it is the parameter \<open>lower\<close> of every function below
  that calls it. A label is lowercase when it is a string that \<open>lower\<close> leaves as it is.
\<close>

fun lowercase_label :: "(string \<Rightarrow> string) \<Rightarrow> label \<Rightarrow> bool" where
  "lowercase_label lower (Str s) = (lower s = s)"
| "lowercase_label lower (NonStr n) = False"

section \<open>transform\<close>

text \<open>\<^verbatim>\<open>data.dropna()\<close>: the rows with no missing cell, in their order.\<close>

definition dropna :: "dataframe \<Rightarrow> dataframe" where
  "dropna d = d\<lparr>rows := filter (\<lambda>r. Null \<notin> set r) (rows d)\<rparr>"

text \<open>
  \<^verbatim>\<open>[col.lower() for col in data.columns]\<close>: the comprehension stops with
  \<open>AttributeError\<close> at the first label that is no string.
\<close>

fun lower_all :: "(string \<Rightarrow> string) \<Rightarrow> label list \<Rightarrow> error + label list" where
  "lower_all lower [] = Inr []"
| "lower_all lower (Str s # cs) =
     (case lower_all lower cs of Inl e \<Rightarrow> Inl e | Inr cs' \<Rightarrow> Inr (Str (lower s) # cs'))"
| "lower_all lower (NonStr n # cs) = Inl AttributeError"

text \<open>What the comprehension does to one label when it does not raise.\<close>

fun lower_label :: "(string \<Rightarrow> string) \<Rightarrow> label \<Rightarrow> label" where
  "lower_label lower (Str s) = Str (lower s)"
| "lower_label lower (NonStr n) = NonStr n"

text \<open>
  \<^verbatim>\<open>data[key] = values\<close> with one value per row: a new label is appended as the last
  column; an existing label keeps its place and every column carrying it is overwritten.
\<close>

definition setitem :: "label \<Rightarrow> cell list \<Rightarrow> dataframe \<Rightarrow> dataframe" where
  "setitem key vals d =
     (if key \<in> set (columns d)
      then d\<lparr>rows := map2 (\<lambda>r v. map2 (\<lambda>c x. if c = key then v else x) (columns d) r)
                         (rows d) vals\<rparr>
      else d\<lparr>columns := columns d @ [key],
             rows := map2 (\<lambda>r v. r @ [v]) (rows d) vals\<rparr>)"

text \<open>
  The body of the \<^verbatim>\<open>try\<close> block of \<^verbatim>\<open>transform\<close> (lines 75 to 86). \<open>now\<close> is
  the string \<^verbatim>\<open>datetime.now().strftime('%Y-%m-%d %H:%M:%S')\<close> read from the clock.
\<close>

definition transform_steps ::
  "(string \<Rightarrow> string) \<Rightarrow> string \<Rightarrow> dataframe \<Rightarrow> error + dataframe" where
  "transform_steps lower now data =
     (let data1 = dropna data in
      case lower_all lower (columns data1) of
        Inl e \<Rightarrow> Inl e
      | Inr cs \<Rightarrow>
          (let data2 = data1\<lparr>columns := cs\<rparr>;
               data3 = setitem (Str ''etl_timestamp'') (replicate (len data2) (Text now)) data2;
               data4 = (if Str ''id'' \<notin> set (columns data3)
                        then setitem (Str ''id'') (map Num [1 .. int (len data3)]) data3
                        else data3)
           in Inr data4))"

text \<open>
  The cells under a label: one list per column that carries the label, each in row order
  (what \<^verbatim>\<open>data[key]\<close> selects).
\<close>

definition positions :: "label \<Rightarrow> label list \<Rightarrow> nat list" where
  "positions key cs = filter (\<lambda>i. cs ! i = key) [0 ..< length cs]"

definition column_at :: "nat \<Rightarrow> dataframe \<Rightarrow> cell list" where
  "column_at i d = map (\<lambda>r. r ! i) (rows d)"

definition getitem :: "label \<Rightarrow> dataframe \<Rightarrow> cell list list" where
  "getitem key d = map (\<lambda>i. column_at i d) (positions key (columns d))"

text \<open>
  The same for a label of the extracted frame compared without regard to case:
  \<open>names_ci lower name c\<close> holds when the label \<open>c\<close> is a string whose lower-cased
  form is \<open>name\<close>.
\<close>

fun names_ci :: "(string \<Rightarrow> string) \<Rightarrow> string \<Rightarrow> label \<Rightarrow> bool" where
  "names_ci lower name (Str s) = (lower s = name)"
| "names_ci lower name (NonStr n) = False"

definition getitem_ci :: "(string \<Rightarrow> string) \<Rightarrow> string \<Rightarrow> dataframe \<Rightarrow> cell list list" where
  "getitem_ci lower name d =
     map (\<lambda>i. column_at i d)
       (filter (\<lambda>i. names_ci lower name (columns d ! i)) [0 ..< length (columns d)])"

text \<open>
  The frame has an id column, and no value stands twice in it (in any of them, when
  several columns carry the label).
\<close>

definition unique_id :: "dataframe \<Rightarrow> bool" where
  "unique_id d = (getitem (Str ''id'') d \<noteq> [] \<and> list_all distinct (getitem (Str ''id'') d))"

text \<open>
  The cells of a row under the labels \<open>cs\<close> of the extracted frame, the timestamp
  columns left out: what \<^verbatim>\<open>transform\<close> is not meant to write to. A row longer than
  \<open>cs\<close> is cut to it, so the columns appended behind are left out too.
\<close>

definition kept_cells :: "(string \<Rightarrow> string) \<Rightarrow> label list \<Rightarrow> cell list \<Rightarrow> cell list" where
  "kept_cells lower cs r =
     map snd (filter (\<lambda>(c, x). \<not> names_ci lower ''etl_timestamp'' c) (zip cs r))"

section \<open>Paths and the file system\<close>

text \<open>
  The functions of \<^verbatim>\<open>os.path\<close> and \<^verbatim>\<open>os\<close> the pipeline calls belong to the Python
  standard library, not to the repository; they are written here after the POSIX
  implementation (\<^verbatim>\<open>posixpath\<close>, \<^verbatim>\<open>genericpath\<close>, \<^verbatim>\<open>os.makedirs\<close>): separator
  \<^verbatim>\<open>/\<close>, no alternative separator, no symbolic links, no permissions.
\<close>

text \<open>\<^verbatim>\<open>p.rfind(c)\<close>: the last index of \<open>c\<close>, or \<open>-1\<close>.\<close>

definition rfind :: "char \<Rightarrow> string \<Rightarrow> int" where
  "rfind c p =
     (if c \<in> set p
      then int (length p) - 1 - int (length (takeWhile (\<lambda>x. x \<noteq> c) (rev p)))
      else - 1)"

text \<open>
  \<^verbatim>\<open>os.path.splitext(p)\<close>: the extension starts at the last dot after the last
  separator, unless only dots stand between that separator and the dot.
\<close>

definition splitext :: "string \<Rightarrow> string \<times> string" where
  "splitext p =
     (let sepIndex = rfind CHR ''/'' p; dotIndex = rfind CHR ''.'' p in
      if dotIndex > sepIndex \<and>
         list_ex (\<lambda>i. p ! nat i \<noteq> CHR ''.'') [sepIndex + 1 .. dotIndex - 1]
      then (take (nat dotIndex) p, drop (nat dotIndex) p)
      else (p, []))"

text \<open>\<^verbatim>\<open>p.split('/')\<close>.\<close>

fun split_sep :: "string \<Rightarrow> string list" where
  "split_sep [] = [[]]"
| "split_sep (c # cs) =
     (if c = CHR ''/'' then [] # split_sep cs
      else (case split_sep cs of [] \<Rightarrow> [[c]] | x # xs \<Rightarrow> (c # x) # xs))"

text \<open>
  An absolute, normalised path is the list of its components, the root the empty list.
  \<open>norm_comps\<close> is the loop of \<^verbatim>\<open>normpath\<close> on an absolute path: empty components
  and \<^verbatim>\<open>.\<close> are skipped, \<^verbatim>\<open>..\<close> drops the last component kept so far (none at the
  root).
\<close>

fun norm_comps :: "string list \<Rightarrow> string list \<Rightarrow> string list" where
  "norm_comps new_comps [] = new_comps"
| "norm_comps new_comps (part # comps) =
     (if part = [] \<or> part = ''.'' then norm_comps new_comps comps
      else if part \<noteq> ''..'' then norm_comps (new_comps @ [part]) comps
      else norm_comps (butlast new_comps) comps)"

text \<open>
  \<^verbatim>\<open>os.path.abspath(p)\<close> with the working directory \<open>wd\<close>:
  \<^verbatim>\<open>normpath(p)\<close> for an absolute \<open>p\<close>, \<^verbatim>\<open>normpath(join(getcwd(), p))\<close> otherwise.
  \<^verbatim>\<open>os.path.dirname\<close> of the result drops its last component.
\<close>

definition abspath :: "string list \<Rightarrow> string \<Rightarrow> string list" where
  "abspath wd p =
     (if p \<noteq> [] \<and> hd p = CHR ''/'' then norm_comps [] (split_sep p)
      else norm_comps [] (wd @ split_sep p))"

definition dirname :: "string list \<Rightarrow> string list" where
  "dirname p = butlast p"

record filesystem =
  cwd :: "string list"
  dirs :: "string list set"
  files :: "string list \<rightharpoonup> string"

definition is_dir :: "filesystem \<Rightarrow> string list \<Rightarrow> bool" where
  "is_dir fs p = (p = [] \<or> p \<in> dirs fs)"

definition is_file :: "filesystem \<Rightarrow> string list \<Rightarrow> bool" where
  "is_file fs p = (p \<noteq> [] \<and> files fs p \<noteq> None)"

definition path_exists :: "filesystem \<Rightarrow> string list \<Rightarrow> bool" where
  "path_exists fs p = (is_dir fs p \<or> is_file fs p)"

text \<open>Every directory but the root lies in a directory.\<close>

definition dirs_closed :: "filesystem \<Rightarrow> bool" where
  "dirs_closed fs = (\<forall>p \<in> dirs fs. is_dir fs (butlast p))"

text \<open>\<^verbatim>\<open>os.mkdir(p)\<close>: one directory, in an existing directory.\<close>

definition mkdir :: "string list \<Rightarrow> filesystem \<Rightarrow> error + filesystem" where
  "mkdir p fs =
     (if is_file fs (butlast p) then Inl NotADirectoryError
      else if \<not> is_dir fs (butlast p) then Inl FileNotFoundError
      else if path_exists fs p then Inl FileExistsError
      else Inr (fs\<lparr>dirs := insert p (dirs fs)\<rparr>))"

text \<open>
  \<^verbatim>\<open>os.makedirs(name, exist_ok=True)\<close>: the missing parent first, by recursion (a
  \<open>FileExistsError\<close> of the recursive call is passed over), then \<^verbatim>\<open>mkdir(name)\<close>,
  whose error is dropped when \<open>name\<close> is a directory.
\<close>

function makedirs :: "string list \<Rightarrow> filesystem \<Rightarrow> error + filesystem" where
  "makedirs name fs =
     (case (if name \<noteq> [] \<and> \<not> path_exists fs (butlast name)
            then (case makedirs (butlast name) fs of
                    Inl e \<Rightarrow> if e = FileExistsError then Inr fs else Inl e
                  | Inr fs' \<Rightarrow> Inr fs')
            else Inr fs) of
        Inl e \<Rightarrow> Inl e
      | Inr fs1 \<Rightarrow>
          (case mkdir name fs1 of
             Inl e \<Rightarrow> if is_dir fs1 name then Inr fs1 else Inl e
           | Inr fs2 \<Rightarrow> Inr fs2))"
  by pat_completeness auto
termination
  by (relation "measure (\<lambda>(name, fs). length name)") auto

declare makedirs.simps [simp del]

text \<open>
  How the operating system finds the path given to \<^verbatim>\<open>open\<close>: from the root for an
  absolute path, from the working directory otherwise, one component after the other.
  Every component, also an empty one, \<^verbatim>\<open>.\<close> and \<^verbatim>\<open>..\<close>, is looked up in what has
  been reached so far, which must be a directory; \<^verbatim>\<open>..\<close> is the directory above. The
  path reached by the last component is returned whether or not something is there.
\<close>

fun walk :: "filesystem \<Rightarrow> string list \<Rightarrow> string list \<Rightarrow> error + string list" where
  "walk f cur [] = Inr cur"
| "walk f cur (part # parts) =
     (if \<not> is_dir f cur
      then (if is_file f cur then Inl NotADirectoryError else Inl FileNotFoundError)
      else if part = [] \<or> part = ''.'' then walk f cur parts
      else if part = ''..'' then walk f (butlast cur) parts
      else walk f (cur @ [part]) parts)"

definition resolve :: "filesystem \<Rightarrow> string \<Rightarrow> error + string list" where
  "resolve f path =
     (if path = [] then Inl FileNotFoundError
      else walk f (if hd path = CHR ''/'' then [] else cwd f) (split_sep path))"


text \<open>A line written to a file opened for appending; the file is made when it is not there.\<close>

definition append_file :: "string list \<Rightarrow> string \<Rightarrow> filesystem \<Rightarrow> filesystem" where
  "append_file p line f =
     f\<lparr>files := (files f)(p \<mapsto> (case files f p of None \<Rightarrow> [] | Some content \<Rightarrow> content) @ line)\<rparr>"

section \<open>The pipeline\<close>

text \<open>
  The readers and writers of pandas are parameters. A reader opens the file at the path as
  the pipeline gave it and parses its content; the parser may raise. A writer takes the
  frame, the path as the pipeline gave it and the file system, and returns the file system
  it leaves behind, with the exception it raised if any.
\<close>

record pandas =
  parse_csv :: "string \<Rightarrow> string + dataframe"
  parse_json :: "string \<Rightarrow> string + dataframe"
  parse_excel :: "string \<Rightarrow> string + dataframe"
  to_csv :: "dataframe \<Rightarrow> string \<Rightarrow> filesystem \<Rightarrow> error option \<times> filesystem"
  to_json :: "dataframe \<Rightarrow> string \<Rightarrow> filesystem \<Rightarrow> error option \<times> filesystem"
  to_excel :: "dataframe \<Rightarrow> string \<Rightarrow> filesystem \<Rightarrow> error option \<times> filesystem"

definition read_with ::
  "(string \<Rightarrow> string + dataframe) \<Rightarrow> string \<Rightarrow> filesystem \<Rightarrow> error + dataframe" where
  "read_with parse path f =
     (case resolve f path of
        Inl e \<Rightarrow> Inl e
      | Inr p \<Rightarrow>
          if is_dir f p then Inl IsADirectoryError
          else (case files f p of
                  None \<Rightarrow> Inl FileNotFoundError
                | Some content \<Rightarrow>
                    (case parse content of
                       Inl msg \<Rightarrow> Inl (LibraryError msg)
                     | Inr data \<Rightarrow> Inr data)))"

text \<open>One event per call of \<^verbatim>\<open>logger.info\<close> or \<^verbatim>\<open>logger.error\<close>, named after the message.\<close>

datatype event =
    Extracting string
  | Extracted nat
  | ExtractionFailed error
  | Transforming
  | Transformed nat
  | TransformationFailed error
  | Loading string
  | Loaded nat string
  | LoadingFailed error
  | Started
  | Completed
  | Failed error

text \<open>
  What the module takes from the Python runtime: \<^verbatim>\<open>str.lower\<close>; the working directory
  at the time the module was loaded, when \<^verbatim>\<open>logging.FileHandler('etl_pipeline.log')\<close>
  (line 12) opened its file for appending and kept the absolute path; and the line the
  formatter of line 10 makes of an event.
\<close>

record python =
  str_lower :: "string \<Rightarrow> string"
  import_cwd :: "string list"
  log_line :: "event \<Rightarrow> string"

definition log_file :: "python \<Rightarrow> string list" where
  "log_file py = abspath (import_cwd py) ''etl_pipeline.log''"

text \<open>
  The world is the file system and the console. A call of the logger goes to both
  handlers: it appends a line to the log file, a file of the file system like any other,
  and shows the event on the console.
\<close>

record world =
  fs :: filesystem
  logged :: "event list"

definition emit :: "python \<Rightarrow> event \<Rightarrow> world \<Rightarrow> world" where
  "emit py e w =
     w\<lparr>fs := append_file (log_file py) (log_line py e) (fs w), logged := logged w @ [e]\<rparr>"

text \<open>Several calls of the logger, one after the other.\<close>

definition emits :: "python \<Rightarrow> event list \<Rightarrow> world \<Rightarrow> world" where
  "emits py es w = foldl (\<lambda>w' e. emit py e w') w es"

record pipeline =
  source_path :: string
  destination_path :: string

text \<open>
  \<^verbatim>\<open>ETLPipeline.extract\<close> (the name \<open>extract\<close> is taken in Isabelle).
\<close>

definition extract_step ::
  "python \<Rightarrow> pandas \<Rightarrow> pipeline \<Rightarrow> world \<Rightarrow> (error + dataframe) \<times> world" where
  "extract_step py pd self w =
     (let w1 = emit py (Extracting (source_path self)) w;
          file_extension = str_lower py (snd (splitext (source_path self)));
          r = (if file_extension = ''.csv''
               then read_with (parse_csv pd) (source_path self) (fs w1)
               else if file_extension = ''.json''
               then read_with (parse_json pd) (source_path self) (fs w1)
               else if file_extension \<in> set [''.xlsx'', ''.xls'']
               then read_with (parse_excel pd) (source_path self) (fs w1)
               else Inl (UnsupportedFormat (''Unsupported file format: '' @ file_extension)))
      in case r of
           Inr data \<Rightarrow> (Inr data, emit py (Extracted (len data)) w1)
         | Inl e \<Rightarrow> (Inl e, emit py (ExtractionFailed e) w1))"

definition transform ::
  "python \<Rightarrow> string \<Rightarrow> dataframe \<Rightarrow> world \<Rightarrow> (error + dataframe) \<times> world" where
  "transform py now data w =
     (let w1 = emit py Transforming w in
      case transform_steps (str_lower py) now data of
        Inr data' \<Rightarrow> (Inr data', emit py (Transformed (len data')) w1)
      | Inl e \<Rightarrow> (Inl e, emit py (TransformationFailed e) w1))"

definition load ::
  "python \<Rightarrow> pandas \<Rightarrow> pipeline \<Rightarrow> dataframe \<Rightarrow> world \<Rightarrow> (error + bool) \<times> world" where
  "load py pd self data w =
     (let w1 = emit py (Loading (destination_path self)) w;
          file_extension = str_lower py (snd (splitext (destination_path self)))
      in case makedirs (dirname (abspath (cwd (fs w1)) (destination_path self))) (fs w1) of
           Inl e \<Rightarrow> (Inl e, emit py (LoadingFailed e) w1)
         | Inr fs1 \<Rightarrow>
             (let (r, fs2) =
                    (if file_extension = ''.csv''
                     then to_csv pd data (destination_path self) fs1
                     else if file_extension = ''.json''
                     then to_json pd data (destination_path self) fs1
                     else if file_extension \<in> set [''.xlsx'', ''.xls'']
                     then to_excel pd data (destination_path self) fs1
                     else (Some (UnsupportedFormat
                                   (''Unsupported destination format: '' @ file_extension)),
                           fs1))
              in case r of
                   None \<Rightarrow>
                     (Inr True,
                      emit py (Loaded (len data) (destination_path self)) (w1\<lparr>fs := fs2\<rparr>))
                 | Some e \<Rightarrow> (Inl e, emit py (LoadingFailed e) (w1\<lparr>fs := fs2\<rparr>))))"

definition run :: "python \<Rightarrow> pandas \<Rightarrow> string \<Rightarrow> pipeline \<Rightarrow> world \<Rightarrow> bool \<times> world" where
  "run py pd now self w =
     (let w0 = emit py Started w in
      case extract_step py pd self w0 of
        (Inl e, w1) \<Rightarrow> (False, emit py (Failed e) w1)
      | (Inr raw_data, w1) \<Rightarrow>
          (case transform py now raw_data w1 of
             (Inl e, w2) \<Rightarrow> (False, emit py (Failed e) w2)
           | (Inr transformed_data, w2) \<Rightarrow>
               (case load py pd self transformed_data w2 of
                  (Inl e, w3) \<Rightarrow> (False, emit py (Failed e) w3)
                | (Inr ok, w3) \<Rightarrow> (True, emit py Completed w3))))"

section \<open>Sample inputs\<close>

text \<open>
  The frame of the example of the specification (two rows, one with a missing age), a
  frame that brings its own id column, and one whose id column repeats a value.
\<close>

definition frame_people :: dataframe where
  "frame_people =
     \<lparr>columns = [Str ''Name'', Str ''Age''],
      rows = [[Text ''John'', Num 28], [Text ''Jane'', Null]]\<rparr>"

definition frame_orders :: dataframe where
  "frame_orders =
     \<lparr>columns = [Str ''ID'', Str ''Item'', Str ''ETL_Timestamp''],
      rows = [[Num 7, Text ''pen'', Text ''old''],
              [Num 3, Null, Text ''old''],
              [Num 9, Text ''ink'', Text ''old'']]\<rparr>"

definition frame_repeated :: dataframe where
  "frame_repeated = \<lparr>columns = [Str ''id''], rows = [[Num 1], [Num 1]]\<rparr>"

definition frame_numbered :: dataframe where
  "frame_numbered = \<lparr>columns = [Str ''Name'', NonStr 2024], rows = [[Text ''John'', Num 28]]\<rparr>"

text \<open>
  A working directory \<^verbatim>\<open>/home/etl\<close> that holds \<^verbatim>\<open>people.csv\<close>, \<^verbatim>\<open>Book.XLS\<close>,
  \<^verbatim>\<open>numbered.json\<close>, a regular file called \<^verbatim>\<open>blocked\<close> and the log file with
  an earlier line in it; nothing on the console yet.
\<close>

definition sample_world :: world where
  "sample_world =
     \<lparr>fs = \<lparr>cwd = [''home'', ''etl''],
             dirs = {[''home''], [''home'', ''etl'']},
             files = [[''home'', ''etl'', ''people.csv''] \<mapsto> ''people'',
                      [''home'', ''etl'', ''Book.XLS''] \<mapsto> ''people'',
                      [''home'', ''etl'', ''numbered.json''] \<mapsto> ''numbered'',
                      [''home'', ''etl'', ''blocked''] \<mapsto> ''x'',
                      [''home'', ''etl'', ''etl_pipeline.log''] \<mapsto> ''old;'']\<rparr>,
      logged = []\<rparr>"

text \<open>
  Stand-ins for pandas: a parser that knows two contents, a writer that stores a fixed
  content under the path, and a spreadsheet writer that finds no engine.
\<close>

definition sample_parse :: "string \<Rightarrow> string + dataframe" where
  "sample_parse content =
     (if content = ''people'' then Inr frame_people
      else if content = ''numbered'' then Inr frame_numbered
      else Inl ''malformed'')"

definition sample_write :: "dataframe \<Rightarrow> string \<Rightarrow> filesystem \<Rightarrow> error option \<times> filesystem" where
  "sample_write data path f =
     (case resolve f path of
        Inl e \<Rightarrow> (Some e, f)
      | Inr p \<Rightarrow> (None, f\<lparr>files := (files f)(p \<mapsto> ''written'')\<rparr>))"

definition sample_pandas :: pandas where
  "sample_pandas =
     \<lparr>parse_csv = sample_parse, parse_json = sample_parse, parse_excel = sample_parse,
      to_csv = sample_write, to_json = sample_write,
      to_excel = (\<lambda>data path f. (Some (LibraryError ''no engine''), f))\<rparr>"

text \<open>
  A stand-in for the runtime: a \<^verbatim>\<open>lower\<close> that is right on ASCII strings (\<open>A..Z\<close>
  go to \<open>a..z\<close>, every other byte stays), the module loaded in \<^verbatim>\<open>/home/etl\<close>, and
  log lines that show the level only.
\<close>

definition lower_char :: "char \<Rightarrow> char" where
  "lower_char c =
     (if 65 \<le> (of_char c :: nat) \<and> (of_char c :: nat) \<le> 90
      then char_of (of_char c + (32 :: nat)) else c)"

definition ascii_lower :: "string \<Rightarrow> string" where
  "ascii_lower s = map lower_char s"

fun sample_line :: "event \<Rightarrow> string" where
  "sample_line (ExtractionFailed e) = ''E;''"
| "sample_line (TransformationFailed e) = ''E;''"
| "sample_line (LoadingFailed e) = ''E;''"
| "sample_line (Failed e) = ''E;''"
| "sample_line e = ''I;''"

definition sample_python :: python where
  "sample_python =
     \<lparr>str_lower = ascii_lower, import_cwd = [''home'', ''etl''], log_line = sample_line\<rparr>"

definition sample_now :: string where
  "sample_now = ''2024-01-01 00:00:00''"

text \<open>
  Pipelines over that directory: one that goes through, one whose source is missing, one
  whose source has a column label that is no string, one that ends in the spreadsheet
  writer, one with text files on both sides, one whose destination lies under the
  regular file, one whose source goes through a directory that is not there, and one
  whose source is missing and whose destination is the log file.
\<close>

definition job_people :: pipeline where
  "job_people = \<lparr>source_path = ''people.csv'', destination_path = ''out/nested/people.json''\<rparr>"

definition job_missing :: pipeline where
  "job_missing = \<lparr>source_path = ''missing.csv'', destination_path = ''out/people.csv''\<rparr>"

definition job_numbered :: pipeline where
  "job_numbered = \<lparr>source_path = ''numbered.json'', destination_path = ''out/numbered.csv''\<rparr>"

definition job_sheet :: pipeline where
  "job_sheet = \<lparr>source_path = ''Book.XLS'', destination_path = ''out/people.XLSX''\<rparr>"

definition job_text :: pipeline where
  "job_text = \<lparr>source_path = ''notes.txt'', destination_path = ''out/nested/report.txt''\<rparr>"

definition job_blocked :: pipeline where
  "job_blocked = \<lparr>source_path = ''people.csv'', destination_path = ''blocked/out.txt''\<rparr>"



section \<open>Facts about the stand-in for lower\<close>

lemma lower_char_idem: "lower_char (lower_char c) = lower_char c"
proof (cases "65 \<le> (of_char c :: nat) \<and> (of_char c :: nat) \<le> 90")
  case True
  then have "(of_char (char_of (of_char c + (32::nat))) :: nat) = of_char c + 32"
    by (simp add: of_char_of)
  with True show ?thesis by (simp add: lower_char_def)
next
  case False
  then show ?thesis by (auto simp: lower_char_def)
qed

lemma ascii_lower_idem: "ascii_lower (ascii_lower s) = ascii_lower s"
  by (simp add: ascii_lower_def lower_char_idem)

section \<open>Facts about transform\<close>

lemma lower_all_map: "lower_all lower cs = Inr cs' \<Longrightarrow> cs' = map (lower_label lower) cs"
proof (induction cs arbitrary: cs')
  case Nil
  then show ?case by simp
next
  case (Cons c cs)
  then show ?case by (cases c) (auto split: sum.splits)
qed

lemma lower_all_lowercase:
  "\<forall>s. lower (lower s) = lower s \<Longrightarrow> lower_all lower cs = Inr cs' \<Longrightarrow>
   list_all (lowercase_label lower) cs'"
proof (induction cs arbitrary: cs')
  case Nil
  then show ?case by simp
next
  case (Cons c cs)
  then show ?case by (cases c) (auto split: sum.splits)
qed

lemma fst_transform: "fst (transform py now data w) = transform_steps (str_lower py) now data"
  by (simp add: transform_def Let_def split: sum.splits)

lemma rows_setitem_nth:
  assumes "well_formed d" "length vals = len d" "k < len d" "i < length (columns d)"
  shows "rows (setitem key vals d) ! k ! i =
           (if key \<in> set (columns d) \<and> columns d ! i = key then vals ! k else rows d ! k ! i)"
proof -
  from assms(1,3) have lr: "length (rows d ! k) = length (columns d)"
    by (simp add: well_formed_def len_def list_all_length)
  show ?thesis using assms lr
    by (simp add: setitem_def len_def nth_append)
qed

lemma rows_setitem_new:
  assumes "well_formed d" "length vals = len d" "k < len d" "key \<notin> set (columns d)"
  shows "rows (setitem key vals d) ! k ! length (columns d) = vals ! k"
proof -
  from assms(1,3) have lr: "length (rows d ! k) = length (columns d)"
    by (simp add: well_formed_def len_def list_all_length)
  show ?thesis using assms lr
    by (simp add: setitem_def len_def nth_append)
qed

lemma len_setitem: "length vals = len d \<Longrightarrow> len (setitem key vals d) = len d"
  by (simp add: setitem_def len_def)

lemma columns_setitem:
  "columns (setitem key vals d) = (if key \<in> set (columns d) then columns d else columns d @ [key])"
  by (simp add: setitem_def)

lemma well_formed_setitem:
  assumes "well_formed d" "length vals = len d"
  shows "well_formed (setitem key vals d)"
  using assms
  by (auto simp: well_formed_def setitem_def len_def list_all_length)

lemma nonull_setitem:
  assumes "list_all (\<lambda>r. Null \<notin> set r) (rows d)" "Null \<notin> set vals"
  shows "list_all (\<lambda>r. Null \<notin> set r) (rows (setitem key vals d))"
  using assms
  by (auto simp: setitem_def list_all_iff set_zip split: if_splits) (metis nth_mem)+

lemma column_at_setitem:
  assumes "well_formed d" "length vals = len d" "i < length (columns (setitem key vals d))"
  shows "column_at i (setitem key vals d) =
           (if columns (setitem key vals d) ! i = key then vals else column_at i d)"
proof (cases "key \<in> set (columns d)")
  case True
  with assms(3) have i: "i < length (columns d)" by (simp add: columns_setitem)
  have "length (column_at i (setitem key vals d)) = len d"
    using assms(2) len_setitem [of vals d key] by (simp add: column_at_def len_def)
  moreover have "\<forall>k < len d. column_at i (setitem key vals d) ! k =
      (if columns d ! i = key then vals ! k else column_at i d ! k)"
    using rows_setitem_nth [OF assms(1,2) _ i, of _ key] True assms(2) len_setitem [of vals d key]
    by (simp add: column_at_def len_def)
  ultimately show ?thesis using True assms(2)
    by (auto simp: columns_setitem list_eq_iff_nth_eq column_at_def len_def)
next
  case False
  have l: "length (column_at i (setitem key vals d)) = len d"
    using assms(2) len_setitem [of vals d key] by (simp add: column_at_def len_def)
  show ?thesis
  proof (cases "i < length (columns d)")
    case True
    then have ne: "columns d ! i \<noteq> key" using False by auto
    have "\<forall>k < len d. column_at i (setitem key vals d) ! k = column_at i d ! k"
      using rows_setitem_nth [OF assms(1,2) _ True, of _ key] False assms(2)
        len_setitem [of vals d key]
      by (simp add: column_at_def len_def)
    then show ?thesis using l ne True False
      by (auto simp: columns_setitem list_eq_iff_nth_eq column_at_def len_def nth_append)
  next
    case nlt: False
    with assms(3) False have i: "i = length (columns d)" by (simp add: columns_setitem)
    have "\<forall>k < len d. column_at i (setitem key vals d) ! k = vals ! k"
      using rows_setitem_new [OF assms(1,2) _ False] assms(2) len_setitem [of vals d key] i
      by (simp add: column_at_def len_def)
    then show ?thesis using l i False assms(2)
      by (auto simp: columns_setitem list_eq_iff_nth_eq column_at_def len_def)
  qed
qed

lemma positions_bound: "i \<in> set (positions key cs) \<Longrightarrow> i < length cs \<and> cs ! i = key"
  by (simp add: positions_def)

lemma positions_append:
  "positions k (cs @ [key]) = positions k cs @ (if k = key then [length cs] else [])"
proof -
  have "filter (\<lambda>i. (cs @ [key]) ! i = k) [0 ..< length cs] = filter (\<lambda>i. cs ! i = k) [0 ..< length cs]"
    by (rule filter_cong) (auto simp: nth_append)
  then show ?thesis by (auto simp: positions_def)
qed

lemma positions_Nil_iff: "positions key cs = [] \<longleftrightarrow> key \<notin> set cs"
  by (auto simp: positions_def filter_empty_conv in_set_conv_nth)

lemma getitem_setitem_other:
  assumes "well_formed d" "length vals = len d" "k \<noteq> key"
  shows "getitem k (setitem key vals d) = getitem k d"
proof -
  have p: "positions k (columns (setitem key vals d)) = positions k (columns d)"
    using assms(3) by (simp add: columns_setitem positions_append)
  have "column_at i (setitem key vals d) = column_at i d"
    if "i \<in> set (positions k (columns d))" for i
  proof -
    from that have "i < length (columns d)" "columns d ! i = k"
      by (simp_all add: positions_bound)
    then have "i < length (columns (setitem key vals d))" "columns (setitem key vals d) ! i = k"
      by (simp_all add: columns_setitem nth_append)
    with column_at_setitem [OF assms(1,2), of i key] assms(3) show ?thesis by simp
  qed
  with p show ?thesis by (simp add: getitem_def)
qed

lemma getitem_setitem_same:
  assumes "well_formed d" "length vals = len d"
  shows "getitem key (setitem key vals d) =
           replicate (length (positions key (columns (setitem key vals d)))) vals"
proof -
  have "column_at i (setitem key vals d) = vals"
    if "i \<in> set (positions key (columns (setitem key vals d)))" for i
    using positions_bound [OF that] column_at_setitem [OF assms, of i key] by simp
  then show ?thesis by (simp add: getitem_def map_replicate_const [symmetric] cong: map_cong)
qed

lemma well_formed_dropna: "well_formed d \<Longrightarrow> well_formed (dropna d)"
  by (simp add: well_formed_def dropna_def list_all_iff)

lemma nonull_dropna: "list_all (\<lambda>r. Null \<notin> set r) (rows (dropna d))"
  by (simp add: dropna_def list_all_iff)

lemma transform_stepsE:
  assumes "transform_steps lower now data = Inr out"
  obtains cs d2 d3 where
    "lower_all lower (columns data) = Inr cs"
    "d2 = (dropna data)\<lparr>columns := cs\<rparr>"
    "d3 = setitem (Str ''etl_timestamp'') (replicate (len (dropna data)) (Text now)) d2"
    "out = (if Str ''id'' \<in> set cs then d3
            else setitem (Str ''id'') (map Num [1 .. int (len (dropna data))]) d3)"
proof -
  have c: "columns (dropna data) = columns data" by (simp add: dropna_def)
  from assms obtain cs where cs: "lower_all lower (columns data) = Inr cs"
    by (auto simp: transform_steps_def c split: sum.splits)
  define d2 where "d2 = (dropna data)\<lparr>columns := cs\<rparr>"
  define d3 where "d3 = setitem (Str ''etl_timestamp'') (replicate (len (dropna data)) (Text now)) d2"
  have n2: "len d2 = len (dropna data)" by (simp add: d2_def len_def)
  have n3: "len d3 = len (dropna data)" by (simp add: d3_def len_setitem n2)
  have i3: "Str ''id'' \<in> set (columns d3) \<longleftrightarrow> Str ''id'' \<in> set cs"
    by (simp add: d3_def columns_setitem d2_def)
  have "transform_steps lower now data =
      Inr (if Str ''id'' \<notin> set (columns d3)
           then setitem (Str ''id'') (map Num [1 .. int (len d3)]) d3 else d3)"
    unfolding transform_steps_def Let_def c cs d3_def d2_def by (simp add: len_def)
  with assms have "out = (if Str ''id'' \<in> set cs then d3
            else setitem (Str ''id'') (map Num [1 .. int (len (dropna data))]) d3)"
    by (auto simp: i3 n3)
  with cs d2_def d3_def show ?thesis by (rule that)
qed

lemma names_ci_lower_label: "names_ci lower name c \<longleftrightarrow> lower_label lower c = Str name"
  by (cases c) auto

lemma lower_all_mem:
  "lower_all lower cs = Inr cs' \<Longrightarrow> Str name \<in> set cs' \<longleftrightarrow> list_ex (names_ci lower name) cs"
  by (force dest!: lower_all_map simp: list_ex_iff names_ci_lower_label image_iff)

lemma lower_all_positions:
  assumes "lower_all lower cs = Inr cs'"
  shows "positions (Str name) cs' = filter (\<lambda>i. names_ci lower name (cs ! i)) [0 ..< length cs]"
proof -
  from assms have cs': "cs' = map (lower_label lower) cs" by (rule lower_all_map)
  show ?thesis unfolding positions_def cs'
    by (rule filter_cong) (auto simp: names_ci_lower_label)
qed

lemma transform_shape:
  assumes "well_formed data" "transform_steps lower now data = Inr out"
  obtains cs d2 d3 where
    "lower_all lower (columns data) = Inr cs"
    "d2 = (dropna data)\<lparr>columns := cs\<rparr>"
    "d3 = setitem (Str ''etl_timestamp'') (replicate (len (dropna data)) (Text now)) d2"
    "out = (if Str ''id'' \<in> set cs then d3
            else setitem (Str ''id'') (map Num [1 .. int (len (dropna data))]) d3)"
    "well_formed d2" "well_formed d3" "len d2 = len (dropna data)" "len d3 = len (dropna data)"
proof -
  from assms(2) obtain cs d2 d3 where *:
    "lower_all lower (columns data) = Inr cs"
    "d2 = (dropna data)\<lparr>columns := cs\<rparr>"
    "d3 = setitem (Str ''etl_timestamp'') (replicate (len (dropna data)) (Text now)) d2"
    "out = (if Str ''id'' \<in> set cs then d3
            else setitem (Str ''id'') (map Num [1 .. int (len (dropna data))]) d3)"
    by (rule transform_stepsE)
  from lower_all_map [OF *(1)] have lc: "length cs = length (columns data)" by simp
  have n2: "len d2 = len (dropna data)" by (simp add: *(2) len_def)
  have w2: "well_formed d2"
    using well_formed_dropna [OF assms(1)] lc by (simp add: *(2) well_formed_def dropna_def)
  have w3: "well_formed d3" unfolding *(3) by (rule well_formed_setitem [OF w2]) (simp add: n2)
  have n3: "len d3 = len (dropna data)" by (simp add: *(3) len_setitem n2)
  from * w2 w3 n2 n3 show ?thesis by (rule that)
qed

text \<open>
  C1. When \<^verbatim>\<open>transform\<close> returns a frame, no row of it has a missing cell, every
  column label is a lowercase string, there is a timestamp column, and every timestamp
  column holds the one string read from the clock in each row. Of \<^verbatim>\<open>str.lower\<close> the
  proof uses what holds of the case tables of Unicode: lower-casing twice is
  lower-casing once, and the two names the code adds are lowercase already.
\<close>

theorem transform_output_clean:
  assumes "well_formed data" and "fst (transform py now data w) = Inr out"
    and "\<forall>s. str_lower py (str_lower py s) = str_lower py s"
    and "str_lower py ''etl_timestamp'' = ''etl_timestamp''" and "str_lower py ''id'' = ''id''"
  shows "list_all (\<lambda>r. Null \<notin> set r) (rows out) \<and>
         list_all (lowercase_label (str_lower py)) (columns out) \<and>
         getitem (Str ''etl_timestamp'') out \<noteq> [] \<and>
         list_all (\<lambda>col. col = replicate (len out) (Text now)) (getitem (Str ''etl_timestamp'') out)"
proof -
  from assms(2) have t: "transform_steps (str_lower py) now data = Inr out"
    by (simp add: fst_transform)
  from assms(1) t obtain cs d2 d3 where
    cs: "lower_all (str_lower py) (columns data) = Inr cs" and
    d2: "d2 = (dropna data)\<lparr>columns := cs\<rparr>" and
    d3: "d3 = setitem (Str ''etl_timestamp'') (replicate (len (dropna data)) (Text now)) d2" and
    out: "out = (if Str ''id'' \<in> set cs then d3
            else setitem (Str ''id'') (map Num [1 .. int (len (dropna data))]) d3)" and
    w2: "well_formed d2" and w3: "well_formed d3" and
    n2: "len d2 = len (dropna data)" and n3: "len d3 = len (dropna data)"
    by (rule transform_shape)
  have ids: "length (map Num [1 .. int (len (dropna data))]) = len d3" by (simp add: n3)
  have nout: "len out = len (dropna data)" using ids by (simp add: out n3 len_setitem)
  have "list_all (\<lambda>r. Null \<notin> set r) (rows d2)" using nonull_dropna [of data] by (simp add: d2)
  then have "list_all (\<lambda>r. Null \<notin> set r) (rows d3)" unfolding d3 by (rule nonull_setitem) simp
  then have a: "list_all (\<lambda>r. Null \<notin> set r) (rows out)"
    unfolding out by (auto intro: nonull_setitem)
  have "list_all (lowercase_label (str_lower py)) cs" using assms(3) cs by (rule lower_all_lowercase)
  then have "list_all (lowercase_label (str_lower py)) (columns d3)"
    by (simp add: d3 d2 columns_setitem assms(4))
  then have b: "list_all (lowercase_label (str_lower py)) (columns out)"
    by (simp add: out columns_setitem assms(5))
  have g3: "getitem (Str ''etl_timestamp'') d3 =
      replicate (length (positions (Str ''etl_timestamp'') (columns d3)))
        (replicate (len (dropna data)) (Text now))"
    unfolding d3 by (rule getitem_setitem_same [OF w2]) (simp add: n2)
  have "Str ''etl_timestamp'' \<in> set (columns d3)" by (simp add: d3 columns_setitem)
  then have p3: "positions (Str ''etl_timestamp'') (columns d3) \<noteq> []"
    by (simp add: positions_Nil_iff)
  have "getitem (Str ''etl_timestamp'') out = getitem (Str ''etl_timestamp'') d3"
    unfolding out using getitem_setitem_other [OF w3 ids, of "Str ''etl_timestamp''" "Str ''id''"]
    by simp
  with g3 p3 nout have c: "getitem (Str ''etl_timestamp'') out \<noteq> [] \<and>
      list_all (\<lambda>col. col = replicate (len out) (Text now)) (getitem (Str ''etl_timestamp'') out)"
    by (simp add: list_all_iff)
  from a b c show ?thesis by simp
qed

theorem transform_output_clean_witness:
  "well_formed frame_orders \<and>
   fst (transform sample_python sample_now frame_orders sample_world) =
     Inr 
     \<lparr>columns = [Str ''id'', Str ''item'', Str ''etl_timestamp''],
          rows = [[Num 7, Text ''pen'', Text sample_now], [Num 9, Text ''ink'', Text sample_now]]\<rparr> \<and>
   (\<forall>s. str_lower sample_python (str_lower sample_python s) = str_lower sample_python s) \<and>
   str_lower sample_python ''etl_timestamp'' = ''etl_timestamp'' \<and>
   str_lower sample_python ''id'' = ''id'' \<and>
   list_all (\<lambda>r. Null \<notin> set r)
     (rows 
     \<lparr>columns = [Str ''id'', Str ''item'', Str ''etl_timestamp''],
          rows = [[Num 7, Text ''pen'', Text sample_now], [Num 9, Text ''ink'', Text sample_now]]\<rparr>) \<and>
   list_all (lowercase_label (str_lower sample_python))
     (columns 
     \<lparr>columns = [Str ''id'', Str ''item'', Str ''etl_timestamp''],
          rows = [[Num 7, Text ''pen'', Text sample_now], [Num 9, Text ''ink'', Text sample_now]]\<rparr>) \<and>
   getitem (Str ''etl_timestamp'')
     
     \<lparr>columns = [Str ''id'', Str ''item'', Str ''etl_timestamp''],
          rows = [[Num 7, Text ''pen'', Text sample_now], [Num 9, Text ''ink'', Text sample_now]]\<rparr> \<noteq> [] \<and>
   list_all (\<lambda>col. col = replicate (len 
     \<lparr>columns = [Str ''id'', Str ''item'', Str ''etl_timestamp''],
          rows = [[Num 7, Text ''pen'', Text sample_now], [Num 9, Text ''ink'', Text sample_now]]\<rparr>) (Text sample_now))
     (getitem (Str ''etl_timestamp'') 
     \<lparr>columns = [Str ''id'', Str ''item'', Str ''etl_timestamp''],
          rows = [[Num 7, Text ''pen'', Text sample_now], [Num 9, Text ''ink'', Text sample_now]]\<rparr>)"
proof -
  have h1: "well_formed frame_orders" by code_simp
  have h2: "fst (transform sample_python sample_now frame_orders sample_world) =
     Inr 
     \<lparr>columns = [Str ''id'', Str ''item'', Str ''etl_timestamp''],
          rows = [[Num 7, Text ''pen'', Text sample_now], [Num 9, Text ''ink'', Text sample_now]]\<rparr>"
    by code_simp
  have h3: "\<forall>s. str_lower sample_python (str_lower sample_python s) = str_lower sample_python s"
    by (simp add: sample_python_def ascii_lower_idem)
  have h4: "str_lower sample_python ''etl_timestamp'' = ''etl_timestamp''" by code_simp
  have h5: "str_lower sample_python ''id'' = ''id''" by code_simp
  from transform_output_clean [OF h1 h2 h3 h4 h5] h1 h2 h3 h4 h5 show ?thesis by simp
qed

lemma steps_id_assigned:
  assumes "well_formed data" and t: "transform_steps lower now data = Inr out"
    and "\<not> list_ex (names_ci lower ''id'') (columns data)"
  shows "getitem (Str ''id'') out = [map Num [1 .. int (len (dropna data))]]"
proof -
  from assms(1) t obtain cs d2 d3 where
    cs: "lower_all lower (columns data) = Inr cs" and
    d2: "d2 = (dropna data)\<lparr>columns := cs\<rparr>" and
    d3: "d3 = setitem (Str ''etl_timestamp'') (replicate (len (dropna data)) (Text now)) d2" and
    out: "out = (if Str ''id'' \<in> set cs then d3
            else setitem (Str ''id'') (map Num [1 .. int (len (dropna data))]) d3)" and
    w2: "well_formed d2" and w3: "well_formed d3" and
    n2: "len d2 = len (dropna data)" and n3: "len d3 = len (dropna data)"
    by (rule transform_shape)
  have ids: "length (map Num [1 .. int (len (dropna data))]) = len d3" by (simp add: n3)
  from assms(3) cs have noid: "Str ''id'' \<notin> set cs" by (simp add: lower_all_mem)
  then have noid3: "Str ''id'' \<notin> set (columns d3)" by (simp add: d3 d2 columns_setitem)
  then have "positions (Str ''id'') (columns d3) = []" by (simp add: positions_Nil_iff)
  then have "length (positions (Str ''id'')
      (columns (setitem (Str ''id'') (map Num [1 .. int (len (dropna data))]) d3))) = 1"
    using noid3 by (simp add: columns_setitem positions_append)
  with getitem_setitem_same [OF w3 ids, of "Str ''id''"] noid show ?thesis
    by (simp add: out)
qed

lemma steps_id_kept:
  assumes "well_formed data" and t: "transform_steps lower now data = Inr out"
    and "list_ex (names_ci lower ''id'') (columns data)"
  shows "getitem (Str ''id'') out = getitem_ci lower ''id'' (dropna data)"
proof -
  from assms(1) t obtain cs d2 d3 where
    cs: "lower_all lower (columns data) = Inr cs" and
    d2: "d2 = (dropna data)\<lparr>columns := cs\<rparr>" and
    d3: "d3 = setitem (Str ''etl_timestamp'') (replicate (len (dropna data)) (Text now)) d2" and
    out: "out = (if Str ''id'' \<in> set cs then d3
            else setitem (Str ''id'') (map Num [1 .. int (len (dropna data))]) d3)" and
    w2: "well_formed d2" and w3: "well_formed d3" and
    n2: "len d2 = len (dropna data)" and n3: "len d3 = len (dropna data)"
    by (rule transform_shape)
  from assms(3) cs have "Str ''id'' \<in> set cs" by (simp add: lower_all_mem)
  then have "out = d3" by (simp add: out)
  moreover have "getitem (Str ''id'') d3 = getitem (Str ''id'') d2"
    unfolding d3 by (rule getitem_setitem_other [OF w2]) (simp_all add: n2)
  moreover have "getitem (Str ''id'') d2 = getitem_ci lower ''id'' (dropna data)"
    using lower_all_positions [OF cs, of "''id''"]
    by (simp add: getitem_def getitem_ci_def d2 column_at_def dropna_def)
  ultimately show ?thesis by simp
qed

lemma steps_has_id:
  assumes "well_formed data" and t: "transform_steps lower now data = Inr out"
  shows "getitem (Str ''id'') out \<noteq> []"
proof -
  from assms(1) t obtain cs d2 d3 where
    d2: "d2 = (dropna data)\<lparr>columns := cs\<rparr>" and
    d3: "d3 = setitem (Str ''etl_timestamp'') (replicate (len (dropna data)) (Text now)) d2" and
    out: "out = (if Str ''id'' \<in> set cs then d3
            else setitem (Str ''id'') (map Num [1 .. int (len (dropna data))]) d3)"
    by (rule transform_shape)
  have "Str ''id'' \<in> set (columns out)" by (simp add: out d3 d2 columns_setitem)
  then show ?thesis by (simp add: getitem_def positions_Nil_iff)
qed

lemma distinct_range: "distinct (map Num [1 .. n])"
  by (simp add: distinct_map inj_on_def)

lemma getitem_ci_Nil: "\<not> list_ex (names_ci lower name) (columns d) \<Longrightarrow> getitem_ci lower name d = []"
  by (simp add: getitem_ci_def list_ex_iff filter_empty_conv)

text \<open>
  C3. When no label of the input is \<^verbatim>\<open>id\<close> in any spelling of case, the returned frame
  has exactly one id column, and it holds \<open>1..N\<close> in row order, \<open>N\<close> the number of
  rows left after the rows with a missing cell are dropped.
\<close>

theorem transform_assigns_id:
  assumes "well_formed data" and "fst (transform py now data w) = Inr out"
    and "\<not> list_ex (names_ci (str_lower py) ''id'') (columns data)"
  shows "getitem (Str ''id'') out = [map Num [1 .. int (len (dropna data))]]"
  using assms by (simp add: fst_transform steps_id_assigned)

theorem transform_assigns_id_witness:
  "well_formed frame_people \<and>
   fst (transform sample_python sample_now frame_people sample_world) =
     Inr 
     \<lparr>columns = [Str ''name'', Str ''age'', Str ''etl_timestamp'', Str ''id''],
          rows = [[Text ''John'', Num 28, Text sample_now, Num 1]]\<rparr> \<and>
   \<not> list_ex (names_ci (str_lower sample_python) ''id'') (columns frame_people) \<and>
   getitem (Str ''id'') 
     \<lparr>columns = [Str ''name'', Str ''age'', Str ''etl_timestamp'', Str ''id''],
          rows = [[Text ''John'', Num 28, Text sample_now, Num 1]]\<rparr> = [map Num [1 .. int (len (dropna frame_people))]] \<and>
   [map Num [1 .. int (len (dropna frame_people))]] = [[Num 1]]"
proof -
  have h1: "well_formed frame_people" by code_simp
  have h2: "fst (transform sample_python sample_now frame_people sample_world) =
     Inr 
     \<lparr>columns = [Str ''name'', Str ''age'', Str ''etl_timestamp'', Str ''id''],
          rows = [[Text ''John'', Num 28, Text sample_now, Num 1]]\<rparr>"
    by code_simp
  have h3: "\<not> list_ex (names_ci (str_lower sample_python) ''id'') (columns frame_people)" by code_simp
  have h4: "[map Num [1 .. int (len (dropna frame_people))]] = [[Num 1]]" by code_simp
  from transform_assigns_id [OF h1 h2 h3] h1 h2 h3 h4 show ?thesis by simp
qed

text \<open>
  C4. When a label of the input is \<^verbatim>\<open>id\<close> in some spelling of case, the id columns of
  the returned frame are the id columns of the input, cell for cell, over the rows left
  after the rows with a missing cell are dropped: nothing is renumbered or overwritten.
\<close>

theorem transform_keeps_id:
  assumes "well_formed data" and "fst (transform py now data w) = Inr out"
    and "list_ex (names_ci (str_lower py) ''id'') (columns data)"
  shows "getitem (Str ''id'') out = getitem_ci (str_lower py) ''id'' (dropna data)"
  using assms by (simp add: fst_transform steps_id_kept)

theorem transform_keeps_id_witness:
  "well_formed frame_orders \<and>
   fst (transform sample_python sample_now frame_orders sample_world) =
     Inr 
     \<lparr>columns = [Str ''id'', Str ''item'', Str ''etl_timestamp''],
          rows = [[Num 7, Text ''pen'', Text sample_now], [Num 9, Text ''ink'', Text sample_now]]\<rparr> \<and>
   list_ex (names_ci (str_lower sample_python) ''id'') (columns frame_orders) \<and>
   getitem (Str ''id'') 
     \<lparr>columns = [Str ''id'', Str ''item'', Str ''etl_timestamp''],
          rows = [[Num 7, Text ''pen'', Text sample_now], [Num 9, Text ''ink'', Text sample_now]]\<rparr> = getitem_ci (str_lower sample_python) ''id'' (dropna frame_orders) \<and>
   getitem_ci (str_lower sample_python) ''id'' (dropna frame_orders) = [[Num 7, Num 9]]"
proof -
  have h1: "well_formed frame_orders" by code_simp
  have h2: "fst (transform sample_python sample_now frame_orders sample_world) =
     Inr 
     \<lparr>columns = [Str ''id'', Str ''item'', Str ''etl_timestamp''],
          rows = [[Num 7, Text ''pen'', Text sample_now], [Num 9, Text ''ink'', Text sample_now]]\<rparr>"
    by code_simp
  have h3: "list_ex (names_ci (str_lower sample_python) ''id'') (columns frame_orders)" by code_simp
  have h4: "getitem_ci (str_lower sample_python) ''id'' (dropna frame_orders) = [[Num 7, Num 9]]" by code_simp
  from transform_keeps_id [OF h1 h2 h3] h1 h2 h3 h4 show ?thesis by simp
qed

text \<open>
  C2. The claim that the id column of the returned frame never repeats a value fails for
  an input that brings an id column with a repeated value: the column is kept as it is.
\<close>

theorem transform_id_counterexample:
  "well_formed frame_repeated \<and>
   fst (transform sample_python sample_now frame_repeated sample_world) =
     Inr 
     \<lparr>columns = [Str ''id'', Str ''etl_timestamp''],
          rows = [[Num 1, Text sample_now], [Num 1, Text sample_now]]\<rparr> \<and>
   \<not> unique_id
     
     \<lparr>columns = [Str ''id'', Str ''etl_timestamp''],
          rows = [[Num 1, Text sample_now], [Num 1, Text sample_now]]\<rparr>"
  by code_simp

text \<open>
  C2, amended. The returned frame has an id column. Its values are pairwise unique exactly
  when those of the id columns of the input are, over the rows left after the rows with a
  missing cell are dropped; they always are when the column is newly made.
\<close>

theorem transform_id_unique_iff:
  assumes "well_formed data" and "fst (transform py now data w) = Inr out"
  shows "Str ''id'' \<in> set (columns out) \<and>
         getitem (Str ''id'') out \<noteq> [] \<and>
         (list_all distinct (getitem (Str ''id'') out) \<longleftrightarrow>
            list_all distinct (getitem_ci (str_lower py) ''id'' (dropna data))) \<and>
         (\<not> list_ex (names_ci (str_lower py) ''id'') (columns data) \<longrightarrow> unique_id out)"
proof -
  from assms(2) have t: "transform_steps (str_lower py) now data = Inr out"
    by (simp add: fst_transform)
  have c: "columns (dropna data) = columns data" by (simp add: dropna_def)
  have e: "getitem (Str ''id'') out \<noteq> []" using assms(1) t by (rule steps_has_id)
  then have m: "Str ''id'' \<in> set (columns out)" by (simp add: getitem_def positions_Nil_iff)
  show ?thesis
  proof (cases "list_ex (names_ci (str_lower py) ''id'') (columns data)")
    case True
    with steps_id_kept [OF assms(1) t] e m show ?thesis by simp
  next
    case False
    with steps_id_assigned [OF assms(1) t]
      getitem_ci_Nil [of "str_lower py" "''id''" "dropna data"] m show ?thesis
      by (simp add: unique_id_def distinct_range c)
  qed
qed

theorem transform_id_unique_iff_witness:
  "well_formed frame_people \<and>
   fst (transform sample_python sample_now frame_people sample_world) =
     Inr 
     \<lparr>columns = [Str ''name'', Str ''age'', Str ''etl_timestamp'', Str ''id''],
          rows = [[Text ''John'', Num 28, Text sample_now, Num 1]]\<rparr> \<and>
   \<not> list_ex (names_ci (str_lower sample_python) ''id'') (columns frame_people) \<and>
   Str ''id'' \<in> set (columns 
     \<lparr>columns = [Str ''name'', Str ''age'', Str ''etl_timestamp'', Str ''id''],
          rows = [[Text ''John'', Num 28, Text sample_now, Num 1]]\<rparr>) \<and>
   unique_id
     
     \<lparr>columns = [Str ''name'', Str ''age'', Str ''etl_timestamp'', Str ''id''],
          rows = [[Text ''John'', Num 28, Text sample_now, Num 1]]\<rparr> \<and>
   well_formed frame_orders \<and>
   fst (transform sample_python sample_now frame_orders sample_world) =
     Inr 
     \<lparr>columns = [Str ''id'', Str ''item'', Str ''etl_timestamp''],
          rows = [[Num 7, Text ''pen'', Text sample_now], [Num 9, Text ''ink'', Text sample_now]]\<rparr> \<and>
   list_all distinct (getitem_ci (str_lower sample_python) ''id'' (dropna frame_orders)) \<and>
   Str ''id'' \<in> set (columns 
     \<lparr>columns = [Str ''id'', Str ''item'', Str ''etl_timestamp''],
          rows = [[Num 7, Text ''pen'', Text sample_now], [Num 9, Text ''ink'', Text sample_now]]\<rparr>) \<and>
   getitem (Str ''id'')
     
     \<lparr>columns = [Str ''id'', Str ''item'', Str ''etl_timestamp''],
          rows = [[Num 7, Text ''pen'', Text sample_now], [Num 9, Text ''ink'', Text sample_now]]\<rparr> \<noteq> [] \<and>
   list_all distinct (getitem (Str ''id'')
     
     \<lparr>columns = [Str ''id'', Str ''item'', Str ''etl_timestamp''],
          rows = [[Num 7, Text ''pen'', Text sample_now], [Num 9, Text ''ink'', Text sample_now]]\<rparr>) \<and>
   well_formed frame_repeated \<and>
   fst (transform sample_python sample_now frame_repeated sample_world) =
     Inr 
     \<lparr>columns = [Str ''id'', Str ''etl_timestamp''],
          rows = [[Num 1, Text sample_now], [Num 1, Text sample_now]]\<rparr> \<and>
   \<not> list_all distinct (getitem_ci (str_lower sample_python) ''id'' (dropna frame_repeated)) \<and>
   Str ''id'' \<in> set (columns 
     \<lparr>columns = [Str ''id'', Str ''etl_timestamp''],
          rows = [[Num 1, Text sample_now], [Num 1, Text sample_now]]\<rparr>) \<and>
   getitem (Str ''id'')
     
     \<lparr>columns = [Str ''id'', Str ''etl_timestamp''],
          rows = [[Num 1, Text sample_now], [Num 1, Text sample_now]]\<rparr> \<noteq> [] \<and>
   \<not> list_all distinct (getitem (Str ''id'')
     
     \<lparr>columns = [Str ''id'', Str ''etl_timestamp''],
          rows = [[Num 1, Text sample_now], [Num 1, Text sample_now]]\<rparr>)"
proof -
  have a1: "well_formed frame_people" by code_simp
  have a2: "fst (transform sample_python sample_now frame_people sample_world) =
     Inr 
     \<lparr>columns = [Str ''name'', Str ''age'', Str ''etl_timestamp'', Str ''id''],
          rows = [[Text ''John'', Num 28, Text sample_now, Num 1]]\<rparr>"
    by code_simp
  have a3: "\<not> list_ex (names_ci (str_lower sample_python) ''id'') (columns frame_people)"
    by code_simp
  have b1: "well_formed frame_orders" by code_simp
  have b2: "fst (transform sample_python sample_now frame_orders sample_world) =
     Inr 
     \<lparr>columns = [Str ''id'', Str ''item'', Str ''etl_timestamp''],
          rows = [[Num 7, Text ''pen'', Text sample_now], [Num 9, Text ''ink'', Text sample_now]]\<rparr>"
    by code_simp
  have b3: "list_all distinct (getitem_ci (str_lower sample_python) ''id'' (dropna frame_orders))"
    by code_simp
  have c1: "well_formed frame_repeated" by code_simp
  have c2: "fst (transform sample_python sample_now frame_repeated sample_world) =
     Inr 
     \<lparr>columns = [Str ''id'', Str ''etl_timestamp''],
          rows = [[Num 1, Text sample_now], [Num 1, Text sample_now]]\<rparr>"
    by code_simp
  have c3: "\<not> list_all distinct (getitem_ci (str_lower sample_python) ''id'' (dropna frame_repeated))"
    by code_simp
  from transform_id_unique_iff [OF a1 a2] transform_id_unique_iff [OF b1 b2]
    transform_id_unique_iff [OF c1 c2] a1 a2 a3 b1 b2 b3 c1 c2 c3
  show ?thesis by simp
qed

lemma kept_cells_cong:
  "length cs \<le> length r \<Longrightarrow> length cs \<le> length r' \<Longrightarrow>
   (\<And>i. i < length cs \<Longrightarrow> \<not> names_ci lower ''etl_timestamp'' (cs ! i) \<Longrightarrow> r ! i = r' ! i) \<Longrightarrow>
   kept_cells lower cs r = kept_cells lower cs r'"
proof (induction cs arbitrary: r r')
  case Nil
  then show ?case by (simp add: kept_cells_def)
next
  case (Cons c cs)
  from Cons.prems(1,2) obtain x xs y ys where r: "r = x # xs" "r' = y # ys"
    by (cases r; cases r') auto
  have "kept_cells lower cs xs = kept_cells lower cs ys"
  proof (rule Cons.IH)
    show "length cs \<le> length xs" "length cs \<le> length ys" using Cons.prems(1,2) r by simp_all
    fix i assume "i < length cs" "\<not> names_ci lower ''etl_timestamp'' (cs ! i)"
    with Cons.prems(3) [of "Suc i"] r show "xs ! i = ys ! i" by simp
  qed
  moreover have "\<not> names_ci lower ''etl_timestamp'' c \<Longrightarrow> x = y"
    using Cons.prems(3) [of 0] r by simp
  ultimately show ?case by (auto simp: kept_cells_def r)
qed

lemma row_length: "well_formed d \<Longrightarrow> k < len d \<Longrightarrow> length (rows d ! k) = length (columns d)"
  by (simp add: well_formed_def len_def list_all_length)

text \<open>
  C9. The rows of the returned frame are the rows of the input that have no missing cell,
  one for one and in the order of the input: cut to the columns of the input and with
  the timestamp cells left out, the two lists of rows are equal.
\<close>

theorem transform_keeps_row_order:
  assumes "well_formed data" and "fst (transform py now data w) = Inr out"
  shows "map (kept_cells (str_lower py) (columns data)) (rows out) =
         map (kept_cells (str_lower py) (columns data)) (filter (\<lambda>r. Null \<notin> set r) (rows data))"
proof -
  from assms(2) have t: "transform_steps (str_lower py) now data = Inr out" by (simp add: fst_transform)
  from assms(1) t obtain cs d2 d3 where
    cs: "lower_all (str_lower py) (columns data) = Inr cs" and
    d2: "d2 = (dropna data)\<lparr>columns := cs\<rparr>" and
    d3: "d3 = setitem (Str ''etl_timestamp'') (replicate (len (dropna data)) (Text now)) d2" and
    out: "out = (if Str ''id'' \<in> set cs then d3
            else setitem (Str ''id'') (map Num [1 .. int (len (dropna data))]) d3)" and
    w2: "well_formed d2" and w3: "well_formed d3" and
    n2: "len d2 = len (dropna data)" and n3: "len d3 = len (dropna data)"
    by (rule transform_shape)
  let ?N = "len (dropna data)"
  have csm: "cs = map (lower_label (str_lower py)) (columns data)" using cs by (rule lower_all_map)
  have ids: "length (map Num [1 .. int ?N]) = len d3" by (simp add: n3)
  have ts: "length (replicate ?N (Text now)) = len d2" by (simp add: n2)
  have wout: "well_formed out" using w3 ids by (simp add: out well_formed_setitem)
  have nout: "len out = ?N" using ids by (simp add: out n3 len_setitem)
  have c3: "length (columns data) \<le> length (columns d3)"
    by (simp add: d3 d2 columns_setitem csm)
  have cout: "length (columns data) \<le> length (columns out)"
    using c3 by (simp add: out columns_setitem)
  have id3: "Str ''id'' \<in> set (columns d3) \<longleftrightarrow> Str ''id'' \<in> set cs"
    by (simp add: d3 d2 columns_setitem)
  have cell: "rows out ! k ! i = rows (dropna data) ! k ! i"
    if k: "k < ?N" and i: "i < length (columns data)"
      and nts: "\<not> names_ci (str_lower py) ''etl_timestamp'' (columns data ! i)" for k i
  proof -
    from i have i2: "i < length (columns d2)" by (simp add: d2 csm)
    from i c3 have i3: "i < length (columns d3)" by simp
    from nts i have ne: "columns d2 ! i \<noteq> Str ''etl_timestamp''"
      by (simp add: d2 csm names_ci_lower_label)
    have "rows out ! k ! i = rows d3 ! k ! i"
      using rows_setitem_nth [OF w3 ids _ i3, of k "Str ''id''"] k id3
      by (simp add: out n3)
    also have "\<dots> = rows d2 ! k ! i"
      using rows_setitem_nth [OF w2 ts _ i2, of k "Str ''etl_timestamp''"] k ne
      by (simp add: d3 n2)
    also have "\<dots> = rows (dropna data) ! k ! i" by (simp add: d2)
    finally show ?thesis .
  qed
  have "kept_cells (str_lower py) (columns data) (rows out ! k) = kept_cells (str_lower py) (columns data) (rows (dropna data) ! k)"
    if k: "k < ?N" for k
  proof (rule kept_cells_cong)
    show "length (columns data) \<le> length (rows out ! k)"
      using row_length [OF wout, of k] k nout cout by simp
    show "length (columns data) \<le> length (rows (dropna data) ! k)"
      using row_length [OF well_formed_dropna [OF assms(1)], of k] k by (simp add: dropna_def)
    show "rows out ! k ! i = rows (dropna data) ! k ! i"
      if "i < length (columns data)" "\<not> names_ci (str_lower py) ''etl_timestamp'' (columns data ! i)" for i
      using cell [OF k that] .
  qed
  then have "map (kept_cells (str_lower py) (columns data)) (rows out) =
      map (kept_cells (str_lower py) (columns data)) (rows (dropna data))"
    using nout by (auto simp: list_eq_iff_nth_eq len_def)
  then show ?thesis by (simp add: dropna_def)
qed

theorem transform_keeps_row_order_witness:
  "well_formed frame_orders \<and>
   fst (transform sample_python sample_now frame_orders sample_world) =
     Inr 
     \<lparr>columns = [Str ''id'', Str ''item'', Str ''etl_timestamp''],
          rows = [[Num 7, Text ''pen'', Text sample_now], [Num 9, Text ''ink'', Text sample_now]]\<rparr> \<and>
   map (kept_cells (str_lower sample_python) (columns frame_orders)) (rows 
     \<lparr>columns = [Str ''id'', Str ''item'', Str ''etl_timestamp''],
          rows = [[Num 7, Text ''pen'', Text sample_now], [Num 9, Text ''ink'', Text sample_now]]\<rparr>) =
     map (kept_cells (str_lower sample_python) (columns frame_orders)) (filter (\<lambda>r. Null \<notin> set r) (rows frame_orders)) \<and>
   map (kept_cells (str_lower sample_python) (columns frame_orders)) (filter (\<lambda>r. Null \<notin> set r) (rows frame_orders)) =
     [[Num 7, Text ''pen''], [Num 9, Text ''ink'']]"
proof -
  have h1: "well_formed frame_orders" by code_simp
  have h2: "fst (transform sample_python sample_now frame_orders sample_world) =
     Inr 
     \<lparr>columns = [Str ''id'', Str ''item'', Str ''etl_timestamp''],
          rows = [[Num 7, Text ''pen'', Text sample_now], [Num 9, Text ''ink'', Text sample_now]]\<rparr>"
    by code_simp
  have h3: "map (kept_cells (str_lower sample_python) (columns frame_orders))
      (filter (\<lambda>r. Null \<notin> set r) (rows frame_orders)) =
     [[Num 7, Text ''pen''], [Num 9, Text ''ink'']]" by code_simp
  from transform_keeps_row_order [OF h1 h2] h1 h2 h3 show ?thesis by simp
qed

section \<open>Facts about the file system\<close>

lemma mkdir_Inr:
  "mkdir p f = Inr f' \<Longrightarrow> f' = f\<lparr>dirs := insert p (dirs f)\<rparr> \<and> is_dir f (butlast p)"
  by (simp add: mkdir_def split: if_splits)

lemma mkdir_Inl:
  "mkdir p f = Inl e \<Longrightarrow> e \<in> {NotADirectoryError, FileNotFoundError, FileExistsError}"
  by (auto simp: mkdir_def split: if_splits)

lemma makedirs_Inr_induct [consumes 1, case_names step]:
  assumes "makedirs name f = Inr f'"
    and step: "\<And>name f f1 f'.
      f1 = f \<or> (makedirs (butlast name) f = Inr f1 \<and> P (butlast name) f f1) \<Longrightarrow>
      mkdir name f1 = Inr f' \<or> (is_dir f1 name \<and> f' = f1) \<Longrightarrow> P name f f'"
  shows "P name f f'"
  using assms(1)
proof (induction name f arbitrary: f' rule: makedirs.induct)
  case (1 name f)
  have last: "P name f f'"
    if "f1 = f \<or> (makedirs (butlast name) f = Inr f1 \<and> P (butlast name) f f1)"
      and "(case mkdir name f1 of Inl e \<Rightarrow> if is_dir f1 name then Inr f1 else Inl e
            | Inr f2 \<Rightarrow> Inr f2) = Inr f'" for f1
    using that by (intro step [of f1 f name f']) (auto split: sum.splits if_splits)
  show ?case
  proof (cases "name \<noteq> [] \<and> \<not> path_exists f (butlast name)")
    case True
    show ?thesis
    proof (cases "makedirs (butlast name) f")
      case (Inl e)
      with True "1.prems" show ?thesis
        by (intro last [of f]) (auto simp: makedirs.simps [of name f] split: if_splits)
    next
      case (Inr f1)
      from "1.IH" [OF True Inr] have "P (butlast name) f f1" .
      with True "1.prems" Inr show ?thesis
        by (intro last [of f1]) (auto simp: makedirs.simps [of name f])
    qed
  next
    case False
    with "1.prems" show ?thesis
      by (intro last [of f]) (auto simp: makedirs.simps [of name f])
  qed
qed

lemma makedirs_frame:
  "makedirs name f = Inr f' \<Longrightarrow> files f' = files f \<and> cwd f' = cwd f \<and> dirs f \<subseteq> dirs f'"
  by (induction rule: makedirs_Inr_induct) (auto dest!: mkdir_Inr)

lemma makedirs_is_dir: "makedirs name f = Inr f' \<Longrightarrow> is_dir f' name"
  by (induction rule: makedirs_Inr_induct) (auto dest!: mkdir_Inr simp: is_dir_def)

lemma makedirs_closed: "makedirs name f = Inr f' \<Longrightarrow> dirs_closed f \<longrightarrow> dirs_closed f'"
  by (induction rule: makedirs_Inr_induct) (auto dest!: mkdir_Inr simp: is_dir_def dirs_closed_def)

lemma makedirs_Inl:
  "makedirs name f = Inl e \<Longrightarrow> e \<in> {NotADirectoryError, FileNotFoundError, FileExistsError}"
proof (induction name f arbitrary: e rule: makedirs.induct)
  case (1 name f)
  show ?case
  proof (cases "name \<noteq> [] \<and> \<not> path_exists f (butlast name)")
    case True
    show ?thesis
    proof (cases "makedirs (butlast name) f")
      case (Inl e')
      from "1.IH" [OF True Inl] have "e' \<in> {NotADirectoryError, FileNotFoundError, FileExistsError}" .
      with True "1.prems" Inl show ?thesis
        by (auto simp: makedirs.simps [of name f] split: if_splits sum.splits dest: mkdir_Inl)
    next
      case (Inr f1)
      with True "1.prems" show ?thesis
        by (auto simp: makedirs.simps [of name f] split: if_splits sum.splits dest: mkdir_Inl)
    qed
  next
    case False
    with "1.prems" show ?thesis
      by (auto simp: makedirs.simps [of name f] split: if_splits sum.splits dest: mkdir_Inl)
  qed
qed

lemma closed_prefix: "dirs_closed f \<Longrightarrow> is_dir f p \<Longrightarrow> is_dir f (take k p)"
proof (induction p arbitrary: k rule: rev_induct)
  case Nil
  then show ?case by simp
next
  case (snoc x xs)
  from snoc.prems have "is_dir f xs" by (auto simp: dirs_closed_def is_dir_def)
  with snoc.IH [OF snoc.prems(1)] have "is_dir f (take k xs)" for k by simp
  with snoc.prems(2) show ?case by (cases "k \<le> length xs") simp_all
qed

section \<open>Facts about the log file and the path walk\<close>

lemma cwd_append: "cwd (append_file p line f) = cwd f"
  by (simp add: append_file_def)

lemma dirs_append: "dirs (append_file p line f) = dirs f"
  by (simp add: append_file_def)

lemma files_append_other: "q \<noteq> p \<Longrightarrow> files (append_file p line f) q = files f q"
  by (simp add: append_file_def)

lemma is_dir_append: "is_dir (append_file p line f) q = is_dir f q"
  by (simp add: is_dir_def dirs_append)

lemma dirs_closed_append: "dirs_closed (append_file p line f) = dirs_closed f"
  by (simp add: dirs_closed_def dirs_append is_dir_append)






lemma fs_emit: "fs (emit py e w) = append_file (log_file py) (log_line py e) (fs w)"
  by (simp add: emit_def)

lemma logged_emit: "logged (emit py e w) = logged w @ [e]"
  by (simp add: emit_def)

lemma emits_Nil: "emits py [] w = w"
  by (simp add: emits_def)

lemma emits_Cons: "emits py (e # es) w = emits py es (emit py e w)"
  by (simp add: emits_def)

lemma logged_emits: "logged (emits py es w) = logged w @ es"
  by (induction es arbitrary: w) (simp_all add: emits_Nil emits_Cons logged_emit)


lemma walk_Inl: "walk f cur parts = Inl e \<Longrightarrow> e \<in> {NotADirectoryError, FileNotFoundError}"
  by (induction parts arbitrary: cur) (auto split: if_splits)

lemma read_with_supported: "read_with parse path f \<noteq> Inl (UnsupportedFormat m)"
  by (auto simp: read_with_def resolve_def split: option.splits sum.splits if_splits dest: walk_Inl)


section \<open>Facts about extract, load and run\<close>

lemma extract_step_snd:
  "snd (extract_step py pd self w) =
     emit py (case fst (extract_step py pd self w) of
                Inl e \<Rightarrow> ExtractionFailed e | Inr data \<Rightarrow> Extracted (len data))
       (emit py (Extracting (source_path self)) w)"
  by (simp add: extract_step_def Let_def split: sum.splits)

lemma transform_snd:
  "snd (transform py now data w) =
     emit py (case fst (transform py now data w) of
                Inl e \<Rightarrow> TransformationFailed e | Inr data' \<Rightarrow> Transformed (len data'))
       (emit py Transforming w)"
  by (simp add: transform_def Let_def split: sum.splits)

lemma load_logged:
  "logged (snd (load py pd self data w)) =
     logged w @ [Loading (destination_path self),
       (case fst (load py pd self data w) of
          Inl e \<Rightarrow> LoadingFailed e | Inr ok \<Rightarrow> Loaded (len data) (destination_path self))]"
  by (simp add: load_def Let_def logged_emit split: sum.splits option.splits prod.splits)

lemma load_unsupported_eq:
  assumes "str_lower py (snd (splitext (destination_path self))) \<notin>
      set [''.csv'', ''.json'', ''.xlsx'', ''.xls'']"
  shows "load py pd self data w =
    (case makedirs (dirname (abspath (cwd (fs w)) (destination_path self)))
            (fs (emit py (Loading (destination_path self)) w)) of
       Inl e \<Rightarrow> (Inl e, emit py (LoadingFailed e) (emit py (Loading (destination_path self)) w))
     | Inr f1 \<Rightarrow>
         (Inl (UnsupportedFormat (''Unsupported destination format: '' @
                 str_lower py (snd (splitext (destination_path self))))),
          emit py (LoadingFailed (UnsupportedFormat (''Unsupported destination format: '' @
                 str_lower py (snd (splitext (destination_path self))))))
            ((emit py (Loading (destination_path self)) w)\<lparr>fs := f1\<rparr>)))"
  using assms by (simp add: load_def Let_def fs_emit cwd_append split: sum.splits)

lemma run_extract_failed:
  "extract_step py pd self (emit py Started w) = (Inl e, w1) \<Longrightarrow>
   run py pd now self w = (False, emit py (Failed e) w1)"
  by (simp add: run_def Let_def)

lemma run_transform_failed:
  "extract_step py pd self (emit py Started w) = (Inr raw, w1) \<Longrightarrow>
   transform py now raw w1 = (Inl e, w2) \<Longrightarrow>
   run py pd now self w = (False, emit py (Failed e) w2)"
  by (simp add: run_def Let_def)

lemma run_load_failed:
  "extract_step py pd self (emit py Started w) = (Inr raw, w1) \<Longrightarrow>
   transform py now raw w1 = (Inr out, w2) \<Longrightarrow>
   load py pd self out w2 = (Inl e, w3) \<Longrightarrow>
   run py pd now self w = (False, emit py (Failed e) w3)"
  by (simp add: run_def Let_def)

lemma run_completed:
  "extract_step py pd self (emit py Started w) = (Inr raw, w1) \<Longrightarrow>
   transform py now raw w1 = (Inr out, w2) \<Longrightarrow>
   load py pd self out w2 = (Inr ok, w3) \<Longrightarrow>
   run py pd now self w = (True, emit py Completed w3)"
  by (simp add: run_def Let_def)

lemma run_True_iff:
  "fst (run py pd now self w) \<longleftrightarrow>
     (\<exists>raw w1 out w2 ok w3.
        extract_step py pd self (emit py Started w) = (Inr raw, w1) \<and>
        transform py now raw w1 = (Inr out, w2) \<and>
        load py pd self out w2 = (Inr ok, w3))"
  by (auto simp: run_def Let_def split: prod.splits sum.splits)

lemma extract_step_fst:
  "fst (extract_step py pd self w) =
     (if str_lower py (snd (splitext (source_path self))) = ''.csv''
      then read_with (parse_csv pd) (source_path self)
             (fs (emit py (Extracting (source_path self)) w))
      else if str_lower py (snd (splitext (source_path self))) = ''.json''
      then read_with (parse_json pd) (source_path self)
             (fs (emit py (Extracting (source_path self)) w))
      else if str_lower py (snd (splitext (source_path self))) \<in> set [''.xlsx'', ''.xls'']
      then read_with (parse_excel pd) (source_path self)
             (fs (emit py (Extracting (source_path self)) w))
      else Inl (UnsupportedFormat (''Unsupported file format: '' @
                  str_lower py (snd (splitext (source_path self))))))"
  by (simp add: extract_step_def Let_def split: sum.splits)

text \<open>
  C5. \<^verbatim>\<open>extract\<close> fails with \<open>UnsupportedFormat\<close> exactly when the lower-cased
  extension of the source path is none of \<^verbatim>\<open>.csv\<close>, \<^verbatim>\<open>.json\<close>, \<^verbatim>\<open>.xlsx\<close>,
  \<^verbatim>\<open>.xls\<close>; otherwise its result is that of the reader of the format, on the file
  system as the first log line left it.
\<close>

theorem extract_dispatch:
  "((\<exists>m. fst (extract_step py pd self w) = Inl (UnsupportedFormat m)) \<longleftrightarrow>
      str_lower py (snd (splitext (source_path self))) \<notin>
        set [''.csv'', ''.json'', ''.xlsx'', ''.xls'']) \<and>
   (str_lower py (snd (splitext (source_path self))) = ''.csv'' \<longrightarrow>
      fst (extract_step py pd self w) =
        read_with (parse_csv pd) (source_path self) (fs (emit py (Extracting (source_path self)) w))) \<and>
   (str_lower py (snd (splitext (source_path self))) = ''.json'' \<longrightarrow>
      fst (extract_step py pd self w) =
        read_with (parse_json pd) (source_path self) (fs (emit py (Extracting (source_path self)) w))) \<and>
   (str_lower py (snd (splitext (source_path self))) \<in> set [''.xlsx'', ''.xls''] \<longrightarrow>
      fst (extract_step py pd self w) =
        read_with (parse_excel pd) (source_path self) (fs (emit py (Extracting (source_path self)) w)))"
  unfolding extract_step_fst by (auto simp: read_with_supported)

theorem extract_dispatch_witness:
  "str_lower sample_python (snd (splitext (source_path job_people))) = ''.csv'' \<and>
   fst (extract_step sample_python sample_pandas job_people sample_world) =
     read_with (parse_csv sample_pandas) (source_path job_people) (fs (emit sample_python (Extracting (source_path job_people)) sample_world)) \<and>
   str_lower sample_python (snd (splitext (source_path job_numbered))) = ''.json'' \<and>
   fst (extract_step sample_python sample_pandas job_numbered sample_world) =
     read_with (parse_json sample_pandas) (source_path job_numbered) (fs (emit sample_python (Extracting (source_path job_numbered)) sample_world)) \<and>
   str_lower sample_python (snd (splitext (source_path job_sheet))) \<in> set [''.xlsx'', ''.xls''] \<and>
   fst (extract_step sample_python sample_pandas job_sheet sample_world) =
     read_with (parse_excel sample_pandas) (source_path job_sheet) (fs (emit sample_python (Extracting (source_path job_sheet)) sample_world)) \<and>
   str_lower sample_python (snd (splitext (source_path job_text))) \<notin> set [''.csv'', ''.json'', ''.xlsx'', ''.xls''] \<and>
   (\<exists>m. fst (extract_step sample_python sample_pandas job_text sample_world) = Inl (UnsupportedFormat m))"
proof -
  have h1: "str_lower sample_python (snd (splitext (source_path job_people))) = ''.csv''" by code_simp
  have h2: "str_lower sample_python (snd (splitext (source_path job_numbered))) = ''.json''" by code_simp
  have h3: "str_lower sample_python (snd (splitext (source_path job_sheet))) \<in> set [''.xlsx'', ''.xls'']"
    by code_simp
  have h4: "str_lower sample_python (snd (splitext (source_path job_text))) \<notin>
      set [''.csv'', ''.json'', ''.xlsx'', ''.xls'']" by code_simp
  from extract_dispatch [of sample_python sample_pandas job_people sample_world]
    extract_dispatch [of sample_python sample_pandas job_numbered sample_world]
    extract_dispatch [of sample_python sample_pandas job_sheet sample_world]
    extract_dispatch [of sample_python sample_pandas job_text sample_world] h1 h2 h3 h4
  show ?thesis by blast
qed

text \<open>
  C6. \<^verbatim>\<open>run\<close> calls \<^verbatim>\<open>extract\<close>, then \<^verbatim>\<open>transform\<close> on the frame extracted, then
  \<^verbatim>\<open>load\<close> on the frame transformed. The first step that fails ends the run with
  \<open>False\<close>, in the world that step left behind and with nothing of a later step in
  the log; the run returns \<open>True\<close> exactly when the three steps succeed.
\<close>

theorem run_sequence:
  "(extract_step py pd self (emit py Started w) = (Inl e, w1) \<longrightarrow>
      run py pd now self w = (False, emit py (Failed e) w1) \<and>
      w1 = emits py [Started, Extracting (source_path self), ExtractionFailed e] w \<and>
      logged w1 = logged w @ [Started, Extracting (source_path self), ExtractionFailed e]) \<and>
   (extract_step py pd self (emit py Started w) = (Inr raw, w1) \<and>
    transform py now raw w1 = (Inl e, w2) \<longrightarrow>
      run py pd now self w = (False, emit py (Failed e) w2) \<and>
      w2 = emits py [Started, Extracting (source_path self), Extracted (len raw),
                     Transforming, TransformationFailed e] w \<and>
      logged w2 = logged w @ [Started, Extracting (source_path self), Extracted (len raw),
                              Transforming, TransformationFailed e]) \<and>
   (extract_step py pd self (emit py Started w) = (Inr raw, w1) \<and>
    transform py now raw w1 = (Inr out, w2) \<and>
    load py pd self out w2 = (Inl e, w3) \<longrightarrow>
      run py pd now self w = (False, emit py (Failed e) w3) \<and>
      w2 = emits py [Started, Extracting (source_path self), Extracted (len raw),
                     Transforming, Transformed (len out)] w \<and>
      logged w3 = logged w @ [Started, Extracting (source_path self), Extracted (len raw),
                              Transforming, Transformed (len out),
                              Loading (destination_path self), LoadingFailed e]) \<and>
   (extract_step py pd self (emit py Started w) = (Inr raw, w1) \<and>
    transform py now raw w1 = (Inr out, w2) \<and>
    load py pd self out w2 = (Inr ok, w3) \<longrightarrow>
      run py pd now self w = (True, emit py Completed w3) \<and>
      w2 = emits py [Started, Extracting (source_path self), Extracted (len raw),
                     Transforming, Transformed (len out)] w \<and>
      logged w3 = logged w @ [Started, Extracting (source_path self), Extracted (len raw),
                              Transforming, Transformed (len out),
                              Loading (destination_path self),
                              Loaded (len out) (destination_path self)]) \<and>
   (fst (run py pd now self w) \<longleftrightarrow>
      (\<exists>raw w1 out w2 ok w3.
         extract_step py pd self (emit py Started w) = (Inr raw, w1) \<and>
         transform py now raw w1 = (Inr out, w2) \<and>
         load py pd self out w2 = (Inr ok, w3)))"
proof -
  have x: "w1 = emits py [Started, Extracting (source_path self),
        (case r of Inl e \<Rightarrow> ExtractionFailed e | Inr data \<Rightarrow> Extracted (len data))] w"
    if "extract_step py pd self (emit py Started w) = (r, w1)" for r w1
    using extract_step_snd [of py pd self "emit py Started w"] that
    by (simp add: emits_def)
  have t: "w2 = emits py [Transforming,
        (case r of Inl e \<Rightarrow> TransformationFailed e | Inr data' \<Rightarrow> Transformed (len data'))] w1"
    if "transform py now raw w1 = (r, w2)" for r w1 w2
    using transform_snd [of py now raw w1] that by (simp add: emits_def)
  have l: "logged w3 = logged w2 @ [Loading (destination_path self),
        (case r of Inl e \<Rightarrow> LoadingFailed e
         | Inr ok \<Rightarrow> Loaded (len out) (destination_path self))]"
    if "load py pd self out w2 = (r, w3)" for r w2 w3
    using load_logged [of py pd self out w2] that by simp
  have a: "extract_step py pd self (emit py Started w) = (Inl e, w1) \<longrightarrow>
      run py pd now self w = (False, emit py (Failed e) w1) \<and>
      w1 = emits py [Started, Extracting (source_path self), ExtractionFailed e] w \<and>
      logged w1 = logged w @ [Started, Extracting (source_path self), ExtractionFailed e]"
    using x [of "Inl e" w1] by (auto simp: run_extract_failed logged_emits)
  have b: "extract_step py pd self (emit py Started w) = (Inr raw, w1) \<and>
    transform py now raw w1 = (Inl e, w2) \<longrightarrow>
      run py pd now self w = (False, emit py (Failed e) w2) \<and>
      w2 = emits py [Started, Extracting (source_path self), Extracted (len raw),
                     Transforming, TransformationFailed e] w \<and>
      logged w2 = logged w @ [Started, Extracting (source_path self), Extracted (len raw),
                              Transforming, TransformationFailed e]"
    using x [of "Inr raw" w1] t [of w1 "Inl e" w2]
    by (auto simp: run_transform_failed logged_emit emits_def)
  have c: "extract_step py pd self (emit py Started w) = (Inr raw, w1) \<and>
    transform py now raw w1 = (Inr out, w2) \<and>
    load py pd self out w2 = (Inl e, w3) \<longrightarrow>
      run py pd now self w = (False, emit py (Failed e) w3) \<and>
      w2 = emits py [Started, Extracting (source_path self), Extracted (len raw),
                     Transforming, Transformed (len out)] w \<and>
      logged w3 = logged w @ [Started, Extracting (source_path self), Extracted (len raw),
                              Transforming, Transformed (len out),
                              Loading (destination_path self), LoadingFailed e]"
    using x [of "Inr raw" w1] t [of w1 "Inr out" w2] l [of w2 "Inl e" w3]
    by (auto simp: run_load_failed logged_emit emits_def)
  have d: "extract_step py pd self (emit py Started w) = (Inr raw, w1) \<and>
    transform py now raw w1 = (Inr out, w2) \<and>
    load py pd self out w2 = (Inr ok, w3) \<longrightarrow>
      run py pd now self w = (True, emit py Completed w3) \<and>
      w2 = emits py [Started, Extracting (source_path self), Extracted (len raw),
                     Transforming, Transformed (len out)] w \<and>
      logged w3 = logged w @ [Started, Extracting (source_path self), Extracted (len raw),
                              Transforming, Transformed (len out),
                              Loading (destination_path self),
                              Loaded (len out) (destination_path self)]"
    using x [of "Inr raw" w1] t [of w1 "Inr out" w2] l [of w2 "Inr ok" w3]
    by (auto simp: run_completed logged_emit emits_def)
  from a b c d run_True_iff [of py pd now self w] show ?thesis by blast
qed

theorem run_sequence_witness:
  "fst (extract_step sample_python sample_pandas job_missing (emit sample_python Started sample_world)) = Inl FileNotFoundError \<and>
   fst (run sample_python sample_pandas sample_now job_missing sample_world) = False \<and>
   logged (snd (run sample_python sample_pandas sample_now job_missing sample_world)) =
     [Started, Extracting ''missing.csv'', ExtractionFailed FileNotFoundError,
      Failed FileNotFoundError] \<and>
   fst (run sample_python sample_pandas sample_now job_numbered sample_world) = False \<and>
   logged (snd (run sample_python sample_pandas sample_now job_numbered sample_world)) =
     [Started, Extracting ''numbered.json'', Extracted 1, Transforming,
      TransformationFailed AttributeError, Failed AttributeError] \<and>
   fst (run sample_python sample_pandas sample_now job_sheet sample_world) = False \<and>
   logged (snd (run sample_python sample_pandas sample_now job_sheet sample_world)) =
     [Started, Extracting ''Book.XLS'', Extracted 2, Transforming, Transformed 1,
      Loading ''out/people.XLSX'', LoadingFailed (LibraryError ''no engine''),
      Failed (LibraryError ''no engine'')] \<and>
   fst (run sample_python sample_pandas sample_now job_people sample_world) = True \<and>
   logged (snd (run sample_python sample_pandas sample_now job_people sample_world)) =
     [Started, Extracting ''people.csv'', Extracted 2, Transforming, Transformed 1,
      Loading ''out/nested/people.json'', Loaded 1 ''out/nested/people.json'', Completed]"
proof -
  let ?w = "emit sample_python Started sample_world"
  let ?out = "\<lparr>columns = [Str ''name'', Str ''age'', Str ''etl_timestamp'', Str ''id''],
      rows = [[Text ''John'', Num 28, Text sample_now, Num 1]]\<rparr>"
  have l0: "logged sample_world = []" by code_simp
  have n: "len frame_numbered = 1" "len frame_people = 2" "len ?out = 1" by code_simp+
  have s: "source_path job_missing = ''missing.csv''" "source_path job_numbered = ''numbered.json''"
    "source_path job_sheet = ''Book.XLS''" "source_path job_people = ''people.csv''"
    "destination_path job_sheet = ''out/people.XLSX''"
    "destination_path job_people = ''out/nested/people.json''" by code_simp+
  \<comment> \<open>the source is missing\<close>
  have a1: "fst (extract_step sample_python sample_pandas job_missing ?w) = Inl FileNotFoundError" by code_simp
  then have a: "extract_step sample_python sample_pandas job_missing ?w =
      (Inl FileNotFoundError, snd (extract_step sample_python sample_pandas job_missing ?w))"
    by (simp add: prod_eq_iff)
  \<comment> \<open>a label is no string\<close>
  have b1: "fst (extract_step sample_python sample_pandas job_numbered ?w) = Inr frame_numbered" by code_simp
  then have b: "extract_step sample_python sample_pandas job_numbered ?w =
      (Inr frame_numbered, snd (extract_step sample_python sample_pandas job_numbered ?w))"
    by (simp add: prod_eq_iff)
  have b2: "fst (transform sample_python sample_now frame_numbered (snd (extract_step sample_python sample_pandas job_numbered ?w))) =
      Inl AttributeError" by code_simp
  then have b': "transform sample_python sample_now frame_numbered (snd (extract_step sample_python sample_pandas job_numbered ?w)) =
      (Inl AttributeError,
       snd (transform sample_python sample_now frame_numbered (snd (extract_step sample_python sample_pandas job_numbered ?w))))"
    by (simp add: prod_eq_iff)
  \<comment> \<open>the writer raises\<close>
  have c1: "fst (extract_step sample_python sample_pandas job_sheet ?w) = Inr frame_people" by code_simp
  then have c: "extract_step sample_python sample_pandas job_sheet ?w =
      (Inr frame_people, snd (extract_step sample_python sample_pandas job_sheet ?w))"
    by (simp add: prod_eq_iff)
  have c2: "fst (transform sample_python sample_now frame_people (snd (extract_step sample_python sample_pandas job_sheet ?w))) =
      Inr ?out" by code_simp
  then have c': "transform sample_python sample_now frame_people (snd (extract_step sample_python sample_pandas job_sheet ?w)) =
      (Inr ?out, snd (transform sample_python sample_now frame_people (snd (extract_step sample_python sample_pandas job_sheet ?w))))"
    by (simp add: prod_eq_iff)
  have c3: "fst (load sample_python sample_pandas job_sheet ?out
      (snd (transform sample_python sample_now frame_people (snd (extract_step sample_python sample_pandas job_sheet ?w))))) =
      Inl (LibraryError ''no engine'')" by code_simp
  then have c'': "load sample_python sample_pandas job_sheet ?out
      (snd (transform sample_python sample_now frame_people (snd (extract_step sample_python sample_pandas job_sheet ?w)))) =
      (Inl (LibraryError ''no engine''),
       snd (load sample_python sample_pandas job_sheet ?out
         (snd (transform sample_python sample_now frame_people (snd (extract_step sample_python sample_pandas job_sheet ?w))))))"
    by (simp add: prod_eq_iff)
  \<comment> \<open>every step succeeds\<close>
  have d1: "fst (extract_step sample_python sample_pandas job_people ?w) = Inr frame_people" by code_simp
  then have d: "extract_step sample_python sample_pandas job_people ?w =
      (Inr frame_people, snd (extract_step sample_python sample_pandas job_people ?w))"
    by (simp add: prod_eq_iff)
  have d2: "fst (transform sample_python sample_now frame_people (snd (extract_step sample_python sample_pandas job_people ?w))) =
      Inr ?out" by code_simp
  then have d': "transform sample_python sample_now frame_people (snd (extract_step sample_python sample_pandas job_people ?w)) =
      (Inr ?out, snd (transform sample_python sample_now frame_people (snd (extract_step sample_python sample_pandas job_people ?w))))"
    by (simp add: prod_eq_iff)
  have d3: "fst (load sample_python sample_pandas job_people ?out
      (snd (transform sample_python sample_now frame_people (snd (extract_step sample_python sample_pandas job_people ?w))))) =
      Inr True" by code_simp
  then have d'': "load sample_python sample_pandas job_people ?out
      (snd (transform sample_python sample_now frame_people (snd (extract_step sample_python sample_pandas job_people ?w)))) =
      (Inr True,
       snd (load sample_python sample_pandas job_people ?out
         (snd (transform sample_python sample_now frame_people (snd (extract_step sample_python sample_pandas job_people ?w))))))"
    by (simp add: prod_eq_iff)
  from a run_sequence [where py = sample_python and pd = sample_pandas and self = job_missing and w = sample_world
      and now = sample_now and e = FileNotFoundError
      and ?w1.0 = "snd (extract_step sample_python sample_pandas job_missing ?w)"]
  have r1: "run sample_python sample_pandas sample_now job_missing sample_world =
        (False, emit sample_python (Failed FileNotFoundError) (snd (extract_step sample_python sample_pandas job_missing ?w))) \<and>
      logged (snd (extract_step sample_python sample_pandas job_missing ?w)) =
        logged sample_world @
          [Started, Extracting (source_path job_missing), ExtractionFailed FileNotFoundError]"
    by blast
  from b b' run_sequence [where py = sample_python and pd = sample_pandas and self = job_numbered and w = sample_world
      and now = sample_now and e = AttributeError and raw = frame_numbered
      and ?w1.0 = "snd (extract_step sample_python sample_pandas job_numbered ?w)"
      and ?w2.0 = "snd (transform sample_python sample_now frame_numbered
                     (snd (extract_step sample_python sample_pandas job_numbered ?w)))"]
  have r2: "run sample_python sample_pandas sample_now job_numbered sample_world =
        (False, emit sample_python (Failed AttributeError)
           (snd (transform sample_python sample_now frame_numbered
              (snd (extract_step sample_python sample_pandas job_numbered ?w))))) \<and>
      logged (snd (transform sample_python sample_now frame_numbered
                (snd (extract_step sample_python sample_pandas job_numbered ?w)))) =
        logged sample_world @
          [Started, Extracting (source_path job_numbered), Extracted (len frame_numbered),
           Transforming, TransformationFailed AttributeError]"
    by blast
  from c c' c'' run_sequence [where py = sample_python and pd = sample_pandas and self = job_sheet and w = sample_world
      and now = sample_now and e = "LibraryError ''no engine''" and raw = frame_people
      and out = ?out
      and ?w1.0 = "snd (extract_step sample_python sample_pandas job_sheet ?w)"
      and ?w2.0 = "snd (transform sample_python sample_now frame_people
                     (snd (extract_step sample_python sample_pandas job_sheet ?w)))"
      and ?w3.0 = "snd (load sample_python sample_pandas job_sheet ?out
                     (snd (transform sample_python sample_now frame_people
                        (snd (extract_step sample_python sample_pandas job_sheet ?w)))))"]
  have r3: "run sample_python sample_pandas sample_now job_sheet sample_world =
        (False, emit sample_python (Failed (LibraryError ''no engine''))
           (snd (load sample_python sample_pandas job_sheet ?out
              (snd (transform sample_python sample_now frame_people
                 (snd (extract_step sample_python sample_pandas job_sheet ?w))))))) \<and>
      logged (snd (load sample_python sample_pandas job_sheet ?out
                (snd (transform sample_python sample_now frame_people
                   (snd (extract_step sample_python sample_pandas job_sheet ?w)))))) =
        logged sample_world @
          [Started, Extracting (source_path job_sheet), Extracted (len frame_people),
           Transforming, Transformed (len ?out), Loading (destination_path job_sheet),
           LoadingFailed (LibraryError ''no engine'')]"
    by blast
  from d d' d'' run_sequence [where py = sample_python and pd = sample_pandas and self = job_people and w = sample_world
      and now = sample_now and ok = True and raw = frame_people
      and out = ?out
      and ?w1.0 = "snd (extract_step sample_python sample_pandas job_people ?w)"
      and ?w2.0 = "snd (transform sample_python sample_now frame_people
                     (snd (extract_step sample_python sample_pandas job_people ?w)))"
      and ?w3.0 = "snd (load sample_python sample_pandas job_people ?out
                     (snd (transform sample_python sample_now frame_people
                        (snd (extract_step sample_python sample_pandas job_people ?w)))))"]
  have r4: "run sample_python sample_pandas sample_now job_people sample_world =
        (True, emit sample_python Completed
           (snd (load sample_python sample_pandas job_people ?out
              (snd (transform sample_python sample_now frame_people
                 (snd (extract_step sample_python sample_pandas job_people ?w))))))) \<and>
      logged (snd (load sample_python sample_pandas job_people ?out
                (snd (transform sample_python sample_now frame_people
                   (snd (extract_step sample_python sample_pandas job_people ?w)))))) =
        logged sample_world @
          [Started, Extracting (source_path job_people), Extracted (len frame_people),
           Transforming, Transformed (len ?out), Loading (destination_path job_people),
           Loaded (len ?out) (destination_path job_people)]"
    by blast
  from a1 r1 r2 r3 r4 show ?thesis by (simp add: logged_emit l0 n s)
qed




text \<open>
  C8. The claim that \<^verbatim>\<open>load\<close> fails with \<open>UnsupportedFormat\<close> for every destination
  whose extension is not supported fails when the parent directory cannot be made:
  \<^verbatim>\<open>makedirs\<close> runs first, and its error is the one \<^verbatim>\<open>load\<close> raises.
\<close>

theorem load_rejects_unsupported_counterexample:
  "str_lower sample_python (snd (splitext (destination_path job_blocked))) \<notin>
     set [''.csv'', ''.json'', ''.xlsx'', ''.xls''] \<and>
   fst (load sample_python sample_pandas job_blocked frame_people sample_world) = Inl FileExistsError"
  by code_simp

text \<open>
  C8, amended. For a destination whose extension is not supported \<^verbatim>\<open>load\<close> fails:
  with \<open>UnsupportedFormat\<close> when the parent directory could be made, with the error
  of \<^verbatim>\<open>makedirs\<close> otherwise. No output file is created at the destination path: the
  log file is the only file \<^verbatim>\<open>load\<close> writes to, and with the log file in place no
  path that held no file before holds one after.
\<close>

theorem load_rejects_unsupported:
  assumes "str_lower py (snd (splitext (destination_path self))) \<notin>
      set [''.csv'', ''.json'', ''.xlsx'', ''.xls'']"
  shows "(\<exists>e. fst (load py pd self data w) = Inl e) \<and>
         (\<forall>f1. makedirs (dirname (abspath (cwd (fs w)) (destination_path self)))
                 (fs (emit py (Loading (destination_path self)) w)) = Inr f1 \<longrightarrow>
            fst (load py pd self data w) =
              Inl (UnsupportedFormat (''Unsupported destination format: '' @
                     str_lower py (snd (splitext (destination_path self)))))) \<and>
         (\<forall>e. makedirs (dirname (abspath (cwd (fs w)) (destination_path self)))
                 (fs (emit py (Loading (destination_path self)) w)) = Inl e \<longrightarrow>
            fst (load py pd self data w) = Inl e) \<and>
         (\<forall>p. p \<noteq> log_file py \<longrightarrow> files (fs (snd (load py pd self data w))) p = files (fs w) p) \<and>
         (files (fs w) (log_file py) \<noteq> None \<longrightarrow>
            (\<forall>p. files (fs w) p = None \<longrightarrow> files (fs (snd (load py pd self data w))) p = None))"
proof -
  let ?m = "makedirs (dirname (abspath (cwd (fs w)) (destination_path self)))
      (fs (emit py (Loading (destination_path self)) w))"
  have o: "\<forall>p. p \<noteq> log_file py \<longrightarrow> files (fs (snd (load py pd self data w))) p = files (fs w) p"
  proof (cases ?m)
    case (Inl e)
    then show ?thesis
      by (simp add: load_unsupported_eq [OF assms] fs_emit files_append_other)
  next
    case (Inr f1)
    from makedirs_frame [OF Inr] have
      "files f1 = files (fs (emit py (Loading (destination_path self)) w))" by simp
    with Inr show ?thesis
      by (simp add: load_unsupported_eq [OF assms] fs_emit files_append_other)
  qed
  then have n: "files (fs w) (log_file py) \<noteq> None \<longrightarrow>
      (\<forall>p. files (fs w) p = None \<longrightarrow> files (fs (snd (load py pd self data w))) p = None)"
    by metis
  have k: "(\<exists>e. fst (load py pd self data w) = Inl e) \<and>
      (\<forall>f1. ?m = Inr f1 \<longrightarrow>
            fst (load py pd self data w) =
              Inl (UnsupportedFormat (''Unsupported destination format: '' @
                     str_lower py (snd (splitext (destination_path self)))))) \<and>
      (\<forall>e. ?m = Inl e \<longrightarrow> fst (load py pd self data w) = Inl e)"
    by (cases ?m) (simp_all add: load_unsupported_eq [OF assms])
  from k o n show ?thesis by blast
qed

theorem load_rejects_unsupported_witness:
  "str_lower sample_python (snd (splitext (destination_path job_text))) \<notin>
     set [''.csv'', ''.json'', ''.xlsx'', ''.xls''] \<and>
   fst (load sample_python sample_pandas job_text frame_people sample_world) =
     Inl (UnsupportedFormat ''Unsupported destination format: .txt'') \<and>
   files (fs sample_world) (log_file sample_python) \<noteq> None \<and>
   files (fs sample_world) [''home'', ''etl'', ''out'', ''nested'', ''report.txt''] = None \<and>
   files (fs (snd (load sample_python sample_pandas job_text frame_people sample_world)))
     [''home'', ''etl'', ''out'', ''nested'', ''report.txt''] = None \<and>
   str_lower sample_python (snd (splitext (destination_path job_blocked))) \<notin>
     set [''.csv'', ''.json'', ''.xlsx'', ''.xls''] \<and>
   makedirs (dirname (abspath (cwd (fs sample_world)) (destination_path job_blocked)))
     (fs (emit sample_python (Loading (destination_path job_blocked)) sample_world)) =
     Inl FileExistsError \<and>
   fst (load sample_python sample_pandas job_blocked frame_people sample_world) = Inl FileExistsError \<and>
   files (fs sample_world) [''home'', ''etl'', ''blocked'', ''out.txt''] = None \<and>
   files (fs (snd (load sample_python sample_pandas job_blocked frame_people sample_world)))
     [''home'', ''etl'', ''blocked'', ''out.txt''] = None"
proof -
  have h1: "str_lower sample_python (snd (splitext (destination_path job_text))) \<notin>
     set [''.csv'', ''.json'', ''.xlsx'', ''.xls'']" by code_simp
  have "case makedirs (dirname (abspath (cwd (fs sample_world)) (destination_path job_text)))
      (fs (emit sample_python (Loading (destination_path job_text)) sample_world))
      of Inl e \<Rightarrow> False | Inr f1 \<Rightarrow> True" by code_simp
  then obtain f1 where h2:
    "makedirs (dirname (abspath (cwd (fs sample_world)) (destination_path job_text)))
      (fs (emit sample_python (Loading (destination_path job_text)) sample_world)) = Inr f1"
    by (auto split: sum.splits)
  have h3: "str_lower sample_python (snd (splitext (destination_path job_text))) = ''.txt''"
    by code_simp
  have h4: "str_lower sample_python (snd (splitext (destination_path job_blocked))) \<notin>
     set [''.csv'', ''.json'', ''.xlsx'', ''.xls'']" by code_simp
  have "case makedirs (dirname (abspath (cwd (fs sample_world)) (destination_path job_blocked)))
      (fs (emit sample_python (Loading (destination_path job_blocked)) sample_world))
      of Inl e \<Rightarrow> e = FileExistsError | Inr f1 \<Rightarrow> False" by code_simp
  then have h5: "makedirs (dirname (abspath (cwd (fs sample_world)) (destination_path job_blocked)))
     (fs (emit sample_python (Loading (destination_path job_blocked)) sample_world)) =
     Inl FileExistsError" by (auto split: sum.splits)
  have h6: "files (fs sample_world) (log_file sample_python) \<noteq> None" by code_simp
  have h7: "files (fs sample_world) [''home'', ''etl'', ''out'', ''nested'', ''report.txt''] = None"
    "files (fs sample_world) [''home'', ''etl'', ''blocked'', ''out.txt''] = None" by code_simp+
  from load_rejects_unsupported [OF h1, of sample_pandas frame_people sample_world]
    load_rejects_unsupported [OF h4, of sample_pandas frame_people sample_world]
    h1 h2 h3 h4 h5 h6 h7
  show ?thesis by simp
qed

text \<open>
  C10. When \<^verbatim>\<open>load\<close> fails with \<open>UnsupportedFormat\<close> for a destination whose
  extension is not supported, \<^verbatim>\<open>makedirs\<close> has run and succeeded before, and what
  \<^verbatim>\<open>load\<close> leaves is the file system \<^verbatim>\<open>makedirs\<close> made with the line of the failure
  appended to the log: the parent directory of the destination and every directory above
  it exist.
\<close>

theorem load_unsupported_keeps_directory:
  assumes "str_lower py (snd (splitext (destination_path self))) \<notin>
      set [''.csv'', ''.json'', ''.xlsx'', ''.xls'']"
    and "fst (load py pd self data w) = Inl (UnsupportedFormat m)"
    and "dirs_closed (fs w)"
  shows "(\<exists>f1. makedirs (dirname (abspath (cwd (fs w)) (destination_path self)))
                 (fs (emit py (Loading (destination_path self)) w)) = Inr f1 \<and>
               fs (snd (load py pd self data w)) =
                 append_file (log_file py) (log_line py (LoadingFailed (UnsupportedFormat m))) f1) \<and>
         (\<forall>k \<le> length (dirname (abspath (cwd (fs w)) (destination_path self))).
            is_dir (fs (snd (load py pd self data w)))
              (take k (dirname (abspath (cwd (fs w)) (destination_path self)))))"
proof (cases "makedirs (dirname (abspath (cwd (fs w)) (destination_path self)))
    (fs (emit py (Loading (destination_path self)) w))")
  case (Inl e)
  with makedirs_Inl [OF Inl] assms(2) show ?thesis
    by (auto simp: load_unsupported_eq [OF assms(1)])
next
  case (Inr f1)
  with assms(2) have l: "fs (snd (load py pd self data w)) =
      append_file (log_file py) (log_line py (LoadingFailed (UnsupportedFormat m))) f1"
    by (auto simp: load_unsupported_eq [OF assms(1)] fs_emit)
  have "dirs_closed (fs (emit py (Loading (destination_path self)) w))"
    using assms(3) by (simp add: fs_emit dirs_closed_append)
  with makedirs_closed [OF Inr] have "dirs_closed f1" by simp
  with makedirs_is_dir [OF Inr] have
    "is_dir f1 (take k (dirname (abspath (cwd (fs w)) (destination_path self))))" for k
    by (simp add: closed_prefix)
  with Inr l show ?thesis by (simp add: is_dir_append)
qed

theorem load_unsupported_keeps_directory_witness:
  "str_lower sample_python (snd (splitext (destination_path job_text))) \<notin>
     set [''.csv'', ''.json'', ''.xlsx'', ''.xls''] \<and>
   fst (load sample_python sample_pandas job_text frame_people sample_world) =
     Inl (UnsupportedFormat ''Unsupported destination format: .txt'') \<and>
   dirs_closed (fs sample_world) \<and>
   dirname (abspath (cwd (fs sample_world)) (destination_path job_text)) =
     [''home'', ''etl'', ''out'', ''nested''] \<and>
   \<not> is_dir (fs sample_world) [''home'', ''etl'', ''out''] \<and>
   \<not> is_dir (fs sample_world) [''home'', ''etl'', ''out'', ''nested''] \<and>
   is_dir (fs (snd (load sample_python sample_pandas job_text frame_people sample_world)))
     (take 3 [''home'', ''etl'', ''out'', ''nested'']) \<and>
   is_dir (fs (snd (load sample_python sample_pandas job_text frame_people sample_world)))
     (take 4 [''home'', ''etl'', ''out'', ''nested''])"
proof -
  have h1: "str_lower sample_python (snd (splitext (destination_path job_text))) \<notin>
     set [''.csv'', ''.json'', ''.xlsx'', ''.xls'']" by code_simp
  have h2: "fst (load sample_python sample_pandas job_text frame_people sample_world) =
     Inl (UnsupportedFormat ''Unsupported destination format: .txt'')" by code_simp
  have h3: "dirs_closed (fs sample_world)" by code_simp
  have h4: "dirname (abspath (cwd (fs sample_world)) (destination_path job_text)) =
     [''home'', ''etl'', ''out'', ''nested'']" by code_simp
  have h5: "\<not> is_dir (fs sample_world) [''home'', ''etl'', ''out'']"
    "\<not> is_dir (fs sample_world) [''home'', ''etl'', ''out'', ''nested'']" by code_simp+
  from load_unsupported_keeps_directory [OF h1 h2 h3] have
    "\<forall>k \<le> length [''home'', ''etl'', ''out'', ''nested''].
       is_dir (fs (snd (load sample_python sample_pandas job_text frame_people sample_world)))
         (take k [''home'', ''etl'', ''out'', ''nested''])" unfolding h4 by blast
  from this [rule_format, of 3] this [rule_format, of 4] have "is_dir (fs (snd (load sample_python sample_pandas job_text frame_people sample_world)))
       (take 3 [''home'', ''etl'', ''out'', ''nested''])"
    "is_dir (fs (snd (load sample_python sample_pandas job_text frame_people sample_world)))
       (take 4 [''home'', ''etl'', ''out'', ''nested''])" by simp_all
  with h1 h2 h3 h4 h5 show ?thesis by simp
qed

end
